theory Spec2Isabelle
  imports Main "HOL-Library.Multiset"
begin

section \<open>Data model (app/models.py)\<close>

text \<open>
  The enumerations of app/models.py. \<open>MessageStatus.ARCHIVED\<close> is written
  \<open>MSG_ARCHIVED\<close>, since \<open>ProjectStatus\<close> already has a member of that name.
\<close>

datatype ProjectType = UI_UX | PHOTOGRAPHY | THREE_D | OTHER

datatype ProjectStatus = DRAFT | PUBLISHED | ARCHIVED

datatype MessageStatus = NEW | READ | REPLIED | MSG_ARCHIVED

datatype GalleryType = PORTFOLIO | PERSONAL | CLIENT | EXHIBITION

text \<open>
  A naive UTC \<open>datetime\<close> is a point on a discrete time line (microseconds). Python's
  \<open>int\<close> is unbounded, so it is \<open>int\<close>; \<open>str\<close> is \<open>string\<close>; \<open>Optional[t]\<close> is
  \<open>t option\<close>; a JSON column holding \<open>Dict[str, str]\<close> is an association list.
\<close>

type_synonym datetime = int

datatype json = JNull | JBool bool | JInt int | JStr string
  | JList "json list" | JDict "(string \<times> json) list"

text \<open>
  The table classes. Every field carries the class as a prefix (\<open>Project.slug\<close> is
  \<open>project_slug\<close>), because several classes share field names and \<open>id\<close> is a constant
  of HOL. The \<open>Relationship\<close> attributes are views computed from the foreign keys and
  are not columns.
\<close>

record User =
  user_id :: "int option"
  user_name :: string
  user_email :: string
  user_bio :: string
  user_profession :: string
  user_location :: string
  user_website :: string
  user_linkedin :: string
  user_instagram :: string
  user_behance :: string
  user_dribbble :: string
  user_is_active :: bool
  user_created_at :: datetime
  user_updated_at :: datetime

record Project =
  project_id :: "int option"
  project_title :: string
  project_slug :: string
  project_description :: string
  project_detailed_description :: string
  project_project_type :: ProjectType
  project_status :: ProjectStatus
  project_thumbnail_url :: string
  project_cover_image_url :: string
  project_client_name :: string
  project_project_url :: string
  project_github_url :: string
  project_behance_url :: string
  project_dribbble_url :: string
  project_tags :: "string list"
  project_technologies :: "string list"
  project_color_palette :: "string list"
  project_project_duration :: string
  project_completion_date :: "datetime option"
  project_featured :: bool
  project_sort_order :: int
  project_view_count :: int
  project_like_count :: int
  project_owner_id :: int
  project_created_at :: datetime
  project_updated_at :: datetime

record ProjectImage =
  image_id :: "int option"
  image_project_id :: int
  image_image_url :: string
  image_alt_text :: string
  image_caption :: string
  image_width :: "int option"
  image_height :: "int option"
  image_file_size :: "int option"
  image_sort_order :: int
  image_is_featured :: bool
  image_created_at :: datetime

record ProjectSection =
  section_id :: "int option"
  section_project_id :: int
  section_title :: string
  section_content :: string
  section_section_type :: string
  section_image_url :: string
  section_sort_order :: int
  section_created_at :: datetime

record Gallery =
  gallery_id :: "int option"
  gallery_title :: string
  gallery_slug :: string
  gallery_description :: string
  gallery_gallery_type :: GalleryType
  gallery_cover_image_url :: string
  gallery_location :: string
  gallery_shoot_date :: "datetime option"
  gallery_featured :: bool
  gallery_is_public :: bool
  gallery_sort_order :: int
  gallery_view_count :: int
  gallery_owner_id :: int
  gallery_created_at :: datetime
  gallery_updated_at :: datetime

record Photo =
  photo_id :: "int option"
  photo_gallery_id :: int
  photo_title :: string
  photo_description :: string
  photo_image_url :: string
  photo_thumbnail_url :: string
  photo_alt_text :: string
  photo_width :: "int option"
  photo_height :: "int option"
  photo_file_size :: "int option"
  photo_camera_model :: string
  photo_lens :: string
  photo_focal_length :: string
  photo_aperture :: string
  photo_shutter_speed :: string
  photo_iso :: string
  photo_taken_at :: "datetime option"
  photo_location :: string
  photo_tags :: "string list"
  photo_featured :: bool
  photo_sort_order :: int
  photo_created_at :: datetime

record ThreeDProject =
  three_d_id :: "int option"
  three_d_title :: string
  three_d_slug :: string
  three_d_description :: string
  three_d_software_used :: "string list"
  three_d_render_engine :: string
  three_d_render_time :: string
  three_d_polygon_count :: "int option"
  three_d_texture_resolution :: string
  three_d_featured_image_url :: string
  three_d_project_type :: string
  three_d_style :: string
  three_d_tags :: "string list"
  three_d_featured :: bool
  three_d_sort_order :: int
  three_d_view_count :: int
  three_d_created_at :: datetime
  three_d_updated_at :: datetime

record ThreeDRender =
  render_id :: "int option"
  render_project_id :: int
  render_title :: string
  render_description :: string
  render_image_url :: string
  render_thumbnail_url :: string
  render_alt_text :: string
  render_width :: "int option"
  render_height :: "int option"
  render_file_size :: "int option"
  render_render_settings :: "(string \<times> json) list"
  render_is_final :: bool
  render_sort_order :: int
  render_created_at :: datetime

record ContactMessage =
  message_id :: "int option"
  message_name :: string
  message_email :: string
  message_subject :: string
  message_message :: string
  message_status :: MessageStatus
  message_ip_address :: string
  message_user_agent :: string
  message_replied_at :: "datetime option"
  message_created_at :: datetime

record SiteConfig =
  config_id :: "int option"
  config_site_title :: string
  config_site_description :: string
  config_owner_name :: string
  config_hero_title :: string
  config_hero_subtitle :: string
  config_hero_image_url :: string
  config_about_text :: string
  config_about_image_url :: string
  config_contact_email :: string
  config_phone :: string
  config_address :: string
  config_social_links :: "(string \<times> string) list"
  config_theme_colors :: "(string \<times> string) list"
  config_seo_keywords :: "string list"
  config_google_analytics_id :: string
  config_updated_at :: datetime

text \<open>The contact form schema \<open>ContactMessageCreate\<close> (\<open>table=False\<close>).\<close>

record ContactMessageCreate =
  data_name :: string
  data_email :: string
  data_subject :: string
  data_message :: string

datatype error = ValidationError | IntegrityError | DataError

text \<open>
  A schema class that is not a table validates its fields when it is built: each of
  the four strings has a \<open>max_length\<close>, and a longer one raises. (The table classes
  are built without validation.)
\<close>

definition ContactMessageCreate_init ::
  "string \<Rightarrow> string \<Rightarrow> string \<Rightarrow> string \<Rightarrow> error + ContactMessageCreate" where
  "ContactMessageCreate_init name email subject message =
     (if length name \<le> 100 \<and> length email \<le> 255
         \<and> length subject \<le> 200 \<and> length message \<le> 2000
      then Inr \<lparr>data_name = name, data_email = email,
                data_subject = subject, data_message = message\<rparr>
      else Inl ValidationError)"


text \<open>
  The widths the table classes declare (\<open>Field(max_length=...)\<close>): a row fits when
  each of its strings is within the width of its column. The JSON columns have none.
\<close>

definition user_fits :: "User \<Rightarrow> bool" where
  "user_fits u \<longleftrightarrow>
     length (user_name u) \<le> 100 \<and> length (user_email u) \<le> 255 \<and>
     length (user_bio u) \<le> 2000 \<and> length (user_profession u) \<le> 100 \<and>
     length (user_location u) \<le> 100 \<and> length (user_website u) \<le> 255 \<and>
     length (user_linkedin u) \<le> 255 \<and> length (user_instagram u) \<le> 255 \<and>
     length (user_behance u) \<le> 255 \<and> length (user_dribbble u) \<le> 255"

definition project_fits :: "Project \<Rightarrow> bool" where
  "project_fits p \<longleftrightarrow>
     length (project_title p) \<le> 200 \<and> length (project_slug p) \<le> 200 \<and>
     length (project_description p) \<le> 1000 \<and>
     length (project_detailed_description p) \<le> 5000 \<and>
     length (project_thumbnail_url p) \<le> 500 \<and> length (project_cover_image_url p) \<le> 500 \<and>
     length (project_client_name p) \<le> 100 \<and> length (project_project_url p) \<le> 500 \<and>
     length (project_github_url p) \<le> 500 \<and> length (project_behance_url p) \<le> 500 \<and>
     length (project_dribbble_url p) \<le> 500 \<and> length (project_project_duration p) \<le> 50"

definition gallery_fits :: "Gallery \<Rightarrow> bool" where
  "gallery_fits g \<longleftrightarrow>
     length (gallery_title g) \<le> 200 \<and> length (gallery_slug g) \<le> 200 \<and>
     length (gallery_description g) \<le> 1000 \<and> length (gallery_cover_image_url g) \<le> 500 \<and>
     length (gallery_location g) \<le> 100"

definition three_d_fits :: "ThreeDProject \<Rightarrow> bool" where
  "three_d_fits p \<longleftrightarrow>
     length (three_d_title p) \<le> 200 \<and> length (three_d_slug p) \<le> 200 \<and>
     length (three_d_description p) \<le> 1000 \<and> length (three_d_render_engine p) \<le> 50 \<and>
     length (three_d_render_time p) \<le> 50 \<and> length (three_d_texture_resolution p) \<le> 50 \<and>
     length (three_d_featured_image_url p) \<le> 500 \<and> length (three_d_project_type p) \<le> 50 \<and>
     length (three_d_style p) \<le> 50"

definition message_fits :: "ContactMessage \<Rightarrow> bool" where
  "message_fits m \<longleftrightarrow>
     length (message_name m) \<le> 100 \<and> length (message_email m) \<le> 255 \<and>
     length (message_subject m) \<le> 200 \<and> length (message_message m) \<le> 2000 \<and>
     length (message_ip_address m) \<le> 45 \<and> length (message_user_agent m) \<le> 500"

definition config_fits :: "SiteConfig \<Rightarrow> bool" where
  "config_fits c \<longleftrightarrow>
     length (config_site_title c) \<le> 100 \<and> length (config_site_description c) \<le> 500 \<and>
     length (config_owner_name c) \<le> 100 \<and> length (config_hero_title c) \<le> 200 \<and>
     length (config_hero_subtitle c) \<le> 300 \<and> length (config_hero_image_url c) \<le> 500 \<and>
     length (config_about_text c) \<le> 2000 \<and> length (config_about_image_url c) \<le> 500 \<and>
     length (config_contact_email c) \<le> 255 \<and> length (config_phone c) \<le> 20 \<and>
     length (config_address c) \<le> 200 \<and> length (config_google_analytics_id c) \<le> 50"


section \<open>The store\<close>

text \<open>
  Modelled from the spec: app/database.py (\<open>get_session\<close>, \<open>reset_db\<close>, the engine)
  is not among the sources. The spec's persistence store is "a relational store
  holding typed records": one table per table class, each a list of rows in the order
  of insertion. Integers are Python's, unbounded; the identifier of a new row is
  assigned by the store.
\<close>

record store =
  users :: "User list"
  projects :: "Project list"
  project_images :: "ProjectImage list"
  project_sections :: "ProjectSection list"
  galleries :: "Gallery list"
  photos :: "Photo list"
  three_d_projects :: "ThreeDProject list"
  three_d_renders :: "ThreeDRender list"
  contact_messages :: "ContactMessage list"
  site_config :: "SiteConfig list"

text \<open>
  Modelled from the spec: \<open>reset_db\<close> of the absent app/database.py, which the tests
  run before each case; the fresh store has every table and no row.
\<close>

definition fresh_store :: store where
  "fresh_store = \<lparr>users = [], projects = [], project_images = [], project_sections = [],
     galleries = [], photos = [], three_d_projects = [], three_d_renders = [],
     contact_messages = [], site_config = []\<rparr>"

text \<open>
  Modelled from the spec: the query primitives of the store that the service calls
  through sqlmodel. \<open>first_row\<close> is \<open>.first()\<close>: the first row of a result or \<open>None\<close>.
\<close>

fun first_row :: "'a list \<Rightarrow> 'a option" where
  "first_row [] = None"
| "first_row (x # xs) = Some x"

text \<open>
  Modelled from the spec: \<open>.order_by(...)\<close>. \<open>ahead a b\<close> says that row \<open>a\<close> may stand
  in front of row \<open>b\<close> under the ordering requested. Rows that the ordering does not
  separate keep their table order (an engine may return them in any order).
\<close>

fun insert_row :: "('a \<Rightarrow> 'a \<Rightarrow> bool) \<Rightarrow> 'a \<Rightarrow> 'a list \<Rightarrow> 'a list" where
  "insert_row ahead r [] = [r]"
| "insert_row ahead r (x # xs) =
     (if ahead r x then r # x # xs else x # insert_row ahead r xs)"

fun order_by :: "('a \<Rightarrow> 'a \<Rightarrow> bool) \<Rightarrow> 'a list \<Rightarrow> 'a list" where
  "order_by ahead [] = []"
| "order_by ahead (r # rs) = insert_row ahead r (order_by ahead rs)"

text \<open>
  Modelled from the spec: the engine behind the store, which the absent
  app/database.py configures. The services hand two things to it unchecked, and
  engines differ on both, so the engine is a parameter of the model:
  \<^item> a negative \<open>.limit(n)\<close>: a lenient engine (SQLite) reads it as no limit, a
    strict one (PostgreSQL) refuses the statement;
  \<^item> a string longer than the \<open>max_length\<close> of its column (the table classes are
    built without validation): a lenient engine stores it as it is, a strict one
    refuses the row, and the commit raises and writes nothing.
\<close>

datatype engine = Lenient | Strict

text \<open>
  Modelled from the spec: \<open>.limit(n)\<close>. With \<open>0 \<le> n\<close> every engine returns the first
  \<open>n\<close> rows.
\<close>

definition limit_rows :: "engine \<Rightarrow> int \<Rightarrow> 'a list \<Rightarrow> error + 'a list" where
  "limit_rows engine n rows =
     (if 0 \<le> n then Inr (take (nat n) rows)
      else (case engine of Lenient \<Rightarrow> Inr rows | Strict \<Rightarrow> Inl DataError))"

text \<open>
  Modelled from the spec: whether the engine takes a row, given whether the row fits
  the widths of its columns; and identifiers, "owned/created by the store on insert". A
  new row gets the successor of the largest identifier of its table (1 in an empty
  table); nothing in this core deletes a row.
\<close>

definition width_ok :: "engine \<Rightarrow> bool \<Rightarrow> bool" where
  "width_ok engine fits = (case engine of Lenient \<Rightarrow> True | Strict \<Rightarrow> fits)"

definition fresh_id :: "int option list \<Rightarrow> int" where
  "fresh_id ids = fold (\<lambda>i m. case i of None \<Rightarrow> m | Some j \<Rightarrow> max j m) ids 0 + 1"

fun add_rows :: "('a \<Rightarrow> int option) \<Rightarrow> (int \<Rightarrow> 'a \<Rightarrow> 'a) \<Rightarrow> 'a list \<Rightarrow> 'a list \<Rightarrow> 'a list" where
  "add_rows get_id set_id tbl [] = tbl"
| "add_rows get_id set_id tbl (r # rs) =
     add_rows get_id set_id (tbl @ [set_id (fresh_id (map get_id tbl)) r]) rs"

text \<open>
  Modelled from the spec: a \<open>unique=True\<close> column. Inserting rows whose key is already
  in the table, or twice among the new rows, violates the constraint.
\<close>

definition unique_ok :: "('a \<Rightarrow> string) \<Rightarrow> 'a list \<Rightarrow> 'a list \<Rightarrow> bool" where
  "unique_ok key tbl new \<longleftrightarrow>
     distinct (map key new) \<and> list_all (\<lambda>r. key r \<notin> set (map key tbl)) new"

text \<open>
  \<open>datetime.utcnow()\<close> is read from a clock: \<open>clock k\<close> is the \<open>k\<close>-th reading made
  during a call (the first is \<open>clock 0\<close>).
\<close>

type_synonym clock = "nat \<Rightarrow> datetime"


section \<open>PortfolioService (app/services.py)\<close>

text \<open>
  Each method opens a session on the store; the model takes the store as an argument
  and returns the new store where the method commits. A method whose statement or
  commit the engine can refuse returns \<open>Inl\<close> where it raises.
\<close>

definition get_site_config :: "store \<Rightarrow> SiteConfig option" where
  "get_site_config s = first_row (site_config s)"

definition get_portfolio_owner :: "store \<Rightarrow> User option" where
  "get_portfolio_owner s = first_row (filter user_is_active (users s))"

text \<open>\<open>order_by(desc(sort_order), desc(created_at))\<close> on each of the three tables.\<close>

definition project_desc :: "Project \<Rightarrow> Project \<Rightarrow> bool" where
  "project_desc a b \<longleftrightarrow> project_sort_order b < project_sort_order a
     \<or> (project_sort_order a = project_sort_order b
         \<and> project_created_at b \<le> project_created_at a)"

definition gallery_desc :: "Gallery \<Rightarrow> Gallery \<Rightarrow> bool" where
  "gallery_desc a b \<longleftrightarrow> gallery_sort_order b < gallery_sort_order a
     \<or> (gallery_sort_order a = gallery_sort_order b
         \<and> gallery_created_at b \<le> gallery_created_at a)"

definition three_d_desc :: "ThreeDProject \<Rightarrow> ThreeDProject \<Rightarrow> bool" where
  "three_d_desc a b \<longleftrightarrow> three_d_sort_order b < three_d_sort_order a
     \<or> (three_d_sort_order a = three_d_sort_order b
         \<and> three_d_created_at b \<le> three_d_created_at a)"

definition message_desc :: "ContactMessage \<Rightarrow> ContactMessage \<Rightarrow> bool" where
  "message_desc a b \<longleftrightarrow> message_created_at b \<le> message_created_at a"

definition get_featured_projects :: "engine \<Rightarrow> store \<Rightarrow> int \<Rightarrow> error + Project list" where
  "get_featured_projects engine s limit =
     limit_rows engine limit
       (order_by project_desc
          (filter (\<lambda>p. project_status p = PUBLISHED \<and> project_featured p) (projects s)))"

text \<open>
  \<open>limit: Optional[int] = None\<close>; the test \<open>if limit:\<close> holds for an integer other
  than 0 and fails for \<open>None\<close> and for 0.
\<close>

definition get_projects_by_type ::
  "engine \<Rightarrow> store \<Rightarrow> ProjectType \<Rightarrow> int option \<Rightarrow> error + Project list" where
  "get_projects_by_type engine s project_type limit =
     (let query = order_by project_desc
            (filter (\<lambda>p. project_status p = PUBLISHED \<and> project_project_type p = project_type)
               (projects s))
      in case limit of
           None \<Rightarrow> Inr query
         | Some n \<Rightarrow> if n \<noteq> 0 then limit_rows engine n query else Inr query)"

text \<open>
  The slug lookups. On a hit the method adds 1 to the \<open>view_count\<close> it read, the
  session writes the row back under its primary key, and \<open>refresh\<close> reads the row
  again under that key; the row read is returned.
\<close>

definition get_project_by_slug :: "store \<Rightarrow> string \<Rightarrow> store \<times> Project option" where
  "get_project_by_slug s slug =
     (case first_row (filter (\<lambda>p. project_slug p = slug) (projects s)) of
        None \<Rightarrow> (s, None)
      | Some project \<Rightarrow>
          (let rows = map (\<lambda>q. if project_id q = project_id project
                                then q\<lparr>project_view_count := project_view_count project + 1\<rparr>
                                else q) (projects s)
           in (s\<lparr>projects := rows\<rparr>,
               first_row (filter (\<lambda>q. project_id q = project_id project) rows))))"

definition get_project_images :: "store \<Rightarrow> int \<Rightarrow> ProjectImage list" where
  "get_project_images s pid = filter (\<lambda>i. image_project_id i = pid) (project_images s)"

definition get_featured_galleries :: "engine \<Rightarrow> store \<Rightarrow> int \<Rightarrow> error + Gallery list" where
  "get_featured_galleries engine s limit =
     limit_rows engine limit
       (order_by gallery_desc
          (filter (\<lambda>g. gallery_is_public g \<and> gallery_featured g) (galleries s)))"

definition get_galleries_by_type ::
  "engine \<Rightarrow> store \<Rightarrow> GalleryType \<Rightarrow> int option \<Rightarrow> error + Gallery list" where
  "get_galleries_by_type engine s gallery_type limit =
     (let query = order_by gallery_desc
            (filter (\<lambda>g. gallery_is_public g \<and> gallery_gallery_type g = gallery_type)
               (galleries s))
      in case limit of
           None \<Rightarrow> Inr query
         | Some n \<Rightarrow> if n \<noteq> 0 then limit_rows engine n query else Inr query)"

definition get_gallery_by_slug :: "store \<Rightarrow> string \<Rightarrow> store \<times> Gallery option" where
  "get_gallery_by_slug s slug =
     (case first_row (filter (\<lambda>g. gallery_slug g = slug) (galleries s)) of
        None \<Rightarrow> (s, None)
      | Some gallery \<Rightarrow>
          (let rows = map (\<lambda>q. if gallery_id q = gallery_id gallery
                                then q\<lparr>gallery_view_count := gallery_view_count gallery + 1\<rparr>
                                else q) (galleries s)
           in (s\<lparr>galleries := rows\<rparr>,
               first_row (filter (\<lambda>q. gallery_id q = gallery_id gallery) rows))))"

definition get_gallery_photos :: "store \<Rightarrow> int \<Rightarrow> Photo list" where
  "get_gallery_photos s gid = filter (\<lambda>p. photo_gallery_id p = gid) (photos s)"

definition get_featured_3d_projects ::
  "engine \<Rightarrow> store \<Rightarrow> int \<Rightarrow> error + ThreeDProject list" where
  "get_featured_3d_projects engine s limit =
     limit_rows engine limit
       (order_by three_d_desc (filter three_d_featured (three_d_projects s)))"

definition get_3d_project_by_slug :: "store \<Rightarrow> string \<Rightarrow> store \<times> ThreeDProject option" where
  "get_3d_project_by_slug s slug =
     (case first_row (filter (\<lambda>p. three_d_slug p = slug) (three_d_projects s)) of
        None \<Rightarrow> (s, None)
      | Some project \<Rightarrow>
          (let rows = map (\<lambda>q. if three_d_id q = three_d_id project
                                then q\<lparr>three_d_view_count := three_d_view_count project + 1\<rparr>
                                else q) (three_d_projects s)
           in (s\<lparr>three_d_projects := rows\<rparr>,
               first_row (filter (\<lambda>q. three_d_id q = three_d_id project) rows))))"

definition get_3d_project_renders :: "store \<Rightarrow> int \<Rightarrow> ThreeDRender list" where
  "get_3d_project_renders s pid =
     filter (\<lambda>r. render_project_id r = pid) (three_d_renders s)"

text \<open>
  \<open>create_contact_message(message_data, ip_address="", user_agent="")\<close>; \<open>now\<close> is
  the reading of \<open>datetime.utcnow()\<close> the method makes. \<open>replied_at\<close> takes its default.
  The method checks nothing itself: \<open>ip_address\<close> and \<open>user_agent\<close> go to the columns
  of widths 45 and 500 as they come. Where the engine refuses the row, \<open>commit\<close>
  raises, nothing is written and no message is returned.
\<close>

definition create_contact_message ::
  "engine \<Rightarrow> store \<Rightarrow> datetime \<Rightarrow> ContactMessageCreate \<Rightarrow> string \<Rightarrow> string
     \<Rightarrow> store \<times> (error + ContactMessage)" where
  "create_contact_message engine s now message_data ip_address user_agent =
     (let message = \<lparr>message_id = None,
                      message_name = data_name message_data,
                      message_email = data_email message_data,
                      message_subject = data_subject message_data,
                      message_message = data_message message_data,
                      message_status = NEW,
                      message_ip_address = ip_address,
                      message_user_agent = user_agent,
                      message_replied_at = None,
                      message_created_at = now\<rparr>;
          stored = message\<lparr>message_id :=
                     Some (fresh_id (map message_id (contact_messages s)))\<rparr>
      in if width_ok engine (message_fits message)
         then (s\<lparr>contact_messages := contact_messages s @ [stored]\<rparr>, Inr stored)
         else (s, Inl DataError))"

definition get_recent_messages ::
  "engine \<Rightarrow> store \<Rightarrow> int \<Rightarrow> error + ContactMessage list" where
  "get_recent_messages engine s limit =
     limit_rows engine limit (order_by message_desc (contact_messages s))"


section \<open>SeedDataService (app/services.py)\<close>

text \<open>
  The literal rows of \<open>create_sample_data\<close>. A field the constructor call leaves
  out has the default of its class; \<open>created_at\<close> and \<open>updated_at\<close> are readings of
  the clock, taken in the order in which the rows are built.
\<close>

definition sample_owner :: "clock \<Rightarrow> User" where
  "sample_owner clock =
    \<lparr>user_id = None,
         user_name = ''Alexandra Smith'',
         user_email = ''alex@portfolio.com'',
         user_bio = ''I'm a passionate UI/UX designer and photographer with over 5 years of experience creating meaningful digital experiences and capturing life's beautiful moments.'',
         user_profession = ''UI/UX Designer & Photographer'',
         user_location = ''San Francisco, CA'',
         user_website = ''https://alexandra-portfolio.com'',
         user_linkedin = ''https://linkedin.com/in/alexandrasmith'',
         user_instagram = ''https://instagram.com/alex_designs'',
         user_behance = ''https://behance.net/alexandrasmith'',
         user_dribbble = ''https://dribbble.com/alexsmith'',
         user_is_active = True,
         user_created_at = clock 0,
         user_updated_at = clock 1\<rparr>"

definition sample_site_config :: "clock \<Rightarrow> SiteConfig" where
  "sample_site_config clock =
    \<lparr>config_id = None,
         config_site_title = ''Alexandra Smith - Designer & Photographer'',
         config_site_description = ''Portfolio showcasing UI/UX design work, photography, and 3D renders'',
         config_owner_name = ''Alexandra Smith'',
         config_hero_title = ''Creating Digital Experiences & Capturing Moments'',
         config_hero_subtitle = ''UI/UX Designer & Photographer passionate about storytelling through design and photography'',
         config_hero_image_url = ''https://images.unsplash.com/photo-1507003211169-0a1dd7228f2d?w=800&h=600&fit=crop'',
         config_about_text = ''I believe great design should be both beautiful and functional. With a background in both digital design and photography, I bring a unique perspective to every project.'',
         config_about_image_url = ''https://images.unsplash.com/photo-1494790108755-2616b612b786?w=400&h=400&fit=crop'',
         config_contact_email = ''hello@alexandra-portfolio.com'',
         config_phone = '''',
         config_address = '''',
         config_social_links = [(''linkedin'', ''https://linkedin.com/in/alexandrasmith''), (''instagram'', ''https://instagram.com/alex_designs''), (''behance'', ''https://behance.net/alexandrasmith''), (''dribbble'', ''https://dribbble.com/alexsmith'')],
         config_theme_colors = [(''primary'', ''#667eea''), (''secondary'', ''#764ba2''), (''accent'', ''#f093fb'')],
         config_seo_keywords = [],
         config_google_analytics_id = '''',
         config_updated_at = clock 2\<rparr>"

definition sample_project_ecoshop :: "clock \<Rightarrow> int \<Rightarrow> Project" where
  "sample_project_ecoshop clock owner_id =
    \<lparr>project_id = None,
        project_title = ''EcoShop Mobile App'',
        project_slug = ''ecoshop-mobile-app'',
        project_description = ''A sustainable shopping app that helps users make eco-friendly choices'',
        project_detailed_description = ''EcoShop is a mobile application designed to promote sustainable shopping habits. The app features product sustainability ratings, carbon footprint tracking, and personalized recommendations for eco-friendly alternatives.'',
        project_project_type = UI_UX,
        project_status = PUBLISHED,
        project_thumbnail_url = ''https://images.unsplash.com/photo-1512941937669-90a1b58e7e9c?w=400&h=300&fit=crop'',
        project_cover_image_url = ''https://images.unsplash.com/photo-1512941937669-90a1b58e7e9c?w=800&h=600&fit=crop'',
        project_client_name = ''EcoTech Solutions'',
        project_project_url = '''',
        project_github_url = '''',
        project_behance_url = '''',
        project_dribbble_url = '''',
        project_tags = [''Mobile App'', ''UI/UX'', ''Sustainability'', ''E-commerce''],
        project_technologies = [''Figma'', ''Sketch'', ''Principle'', ''InVision''],
        project_color_palette = [''#22C55E'', ''#16A34A'', ''#FFFFFF'', ''#F3F4F6''],
        project_project_duration = ''3 months'',
        project_completion_date = None,
        project_featured = True,
        project_sort_order = 1,
        project_view_count = 0,
        project_like_count = 0,
        project_owner_id = owner_id,
        project_created_at = clock 3,
        project_updated_at = clock 4\<rparr>"

definition sample_project_mindfulspace :: "clock \<Rightarrow> int \<Rightarrow> Project" where
  "sample_project_mindfulspace clock owner_id =
    \<lparr>project_id = None,
        project_title = ''MindfulSpace Dashboard'',
        project_slug = ''mindfulspace-dashboard'',
        project_description = ''A wellness platform dashboard for meditation and mindfulness tracking'',
        project_detailed_description = ''MindfulSpace is a comprehensive wellness platform that helps users track their meditation progress, set mindfulness goals, and connect with guided sessions. The dashboard provides clear analytics and a calming user experience.'',
        project_project_type = UI_UX,
        project_status = PUBLISHED,
        project_thumbnail_url = ''https://images.unsplash.com/photo-1544717297-fa95b6ee9643?w=400&h=300&fit=crop'',
        project_cover_image_url = ''https://images.unsplash.com/photo-1544717297-fa95b6ee9643?w=800&h=600&fit=crop'',
        project_client_name = ''Wellness Tech Inc'',
        project_project_url = '''',
        project_github_url = '''',
        project_behance_url = '''',
        project_dribbble_url = '''',
        project_tags = [''Web App'', ''Dashboard'', ''Wellness'', ''Analytics''],
        project_technologies = [''Figma'', ''React'', ''Chart.js'', ''Framer Motion''],
        project_color_palette = [''#8B5CF6'', ''#A78BFA'', ''#F3F4F6'', ''#FFFFFF''],
        project_project_duration = ''2 months'',
        project_completion_date = None,
        project_featured = True,
        project_sort_order = 2,
        project_view_count = 0,
        project_like_count = 0,
        project_owner_id = owner_id,
        project_created_at = clock 5,
        project_updated_at = clock 6\<rparr>"

definition sample_projects :: "clock \<Rightarrow> int \<Rightarrow> Project list" where
  "sample_projects clock owner_id =
     [sample_project_ecoshop clock owner_id, sample_project_mindfulspace clock owner_id]"

definition sample_gallery_urban :: "clock \<Rightarrow> int \<Rightarrow> Gallery" where
  "sample_gallery_urban clock owner_id =
    \<lparr>gallery_id = None,
        gallery_title = ''Urban Landscapes'',
        gallery_slug = ''urban-landscapes'',
        gallery_description = ''Capturing the beauty and energy of city life through architectural photography'',
        gallery_gallery_type = PORTFOLIO,
        gallery_cover_image_url = ''https://images.unsplash.com/photo-1449824913935-59a10b8d2000?w=800&h=600&fit=crop'',
        gallery_location = ''San Francisco, CA'',
        gallery_shoot_date = None,
        gallery_featured = True,
        gallery_is_public = True,
        gallery_sort_order = 1,
        gallery_view_count = 0,
        gallery_owner_id = owner_id,
        gallery_created_at = clock 7,
        gallery_updated_at = clock 8\<rparr>"

definition sample_gallery_portrait :: "clock \<Rightarrow> int \<Rightarrow> Gallery" where
  "sample_gallery_portrait clock owner_id =
    \<lparr>gallery_id = None,
        gallery_title = ''Portrait Sessions'',
        gallery_slug = ''portrait-sessions'',
        gallery_description = ''Professional portraits that capture personality and emotion'',
        gallery_gallery_type = CLIENT,
        gallery_cover_image_url = ''https://images.unsplash.com/photo-1507003211169-0a1dd7228f2d?w=800&h=600&fit=crop'',
        gallery_location = ''Studio & On-location'',
        gallery_shoot_date = None,
        gallery_featured = True,
        gallery_is_public = True,
        gallery_sort_order = 2,
        gallery_view_count = 0,
        gallery_owner_id = owner_id,
        gallery_created_at = clock 9,
        gallery_updated_at = clock 10\<rparr>"

definition sample_galleries :: "clock \<Rightarrow> int \<Rightarrow> Gallery list" where
  "sample_galleries clock owner_id =
     [sample_gallery_urban clock owner_id, sample_gallery_portrait clock owner_id]"

definition sample_three_d_living_room :: "clock \<Rightarrow> ThreeDProject" where
  "sample_three_d_living_room clock =
    \<lparr>three_d_id = None,
        three_d_title = ''Modern Living Room'',
        three_d_slug = ''modern-living-room'',
        three_d_description = ''Architectural visualization of a contemporary living space'',
        three_d_software_used = [''Blender'', ''Cycles''],
        three_d_render_engine = ''Cycles'',
        three_d_render_time = ''45 minutes'',
        three_d_polygon_count = Some 250000,
        three_d_texture_resolution = ''4K'',
        three_d_featured_image_url = ''https://images.unsplash.com/photo-1586023492125-27b2c045efd7?w=800&h=600&fit=crop'',
        three_d_project_type = ''Interior Design'',
        three_d_style = ''Photorealistic'',
        three_d_tags = [''Architecture'', ''Interior'', ''Visualization''],
        three_d_featured = True,
        three_d_sort_order = 1,
        three_d_view_count = 0,
        three_d_created_at = clock 11,
        three_d_updated_at = clock 12\<rparr>"

definition sample_three_d_abstract :: "clock \<Rightarrow> ThreeDProject" where
  "sample_three_d_abstract clock =
    \<lparr>three_d_id = None,
        three_d_title = ''Abstract Composition'',
        three_d_slug = ''abstract-composition'',
        three_d_description = ''Experimental 3D artwork exploring form and color'',
        three_d_software_used = [''Cinema 4D'', ''Octane''],
        three_d_render_engine = ''Octane'',
        three_d_render_time = ''20 minutes'',
        three_d_polygon_count = Some 150000,
        three_d_texture_resolution = ''2K'',
        three_d_featured_image_url = ''https://images.unsplash.com/photo-1618005182384-a83a8bd57fbe?w=800&h=600&fit=crop'',
        three_d_project_type = ''Abstract Art'',
        three_d_style = ''Stylized'',
        three_d_tags = [''Abstract'', ''Art'', ''Experimental''],
        three_d_featured = True,
        three_d_sort_order = 2,
        three_d_view_count = 0,
        three_d_created_at = clock 13,
        three_d_updated_at = clock 14\<rparr>"

definition sample_three_d_projects :: "clock \<Rightarrow> ThreeDProject list" where
  "sample_three_d_projects clock =
     [sample_three_d_living_room clock, sample_three_d_abstract clock]"

text \<open>\<open>owner.id if owner.id else 1\<close>: \<open>None\<close> and 0 are both false.\<close>

definition owner_id_or_1 :: "User \<Rightarrow> int" where
  "owner_id_or_1 owner = (case user_id owner of None \<Rightarrow> 1 | Some i \<Rightarrow> if i \<noteq> 0 then i else 1)"

text \<open>
  \<open>create_sample_data\<close> returns at once when the \<open>users\<close> table has a row. Otherwise
  it commits four times: the owner (the table is empty, so the unique \<open>email\<close> cannot
  clash); the site configuration with the two projects; the two galleries; the two 3D
  projects. A commit that would break a unique \<open>slug\<close> raises and writes nothing, and
  what the earlier commits wrote stays. The result is the store left behind, with
  \<open>Inr ()\<close> for a normal return and \<open>Inl\<close> for the exception. Every literal row is
  within the widths of its columns (lemma \<open>sample_rows_fit\<close> below), so no engine
  refuses a commit of the seed for a width, and the engine is no parameter here.
\<close>

definition create_sample_data :: "clock \<Rightarrow> store \<Rightarrow> store \<times> (error + unit)" where
  "create_sample_data clock s =
     (case first_row (users s) of
        Some existing_user \<Rightarrow> (s, Inr ())
      | None \<Rightarrow>
          (let owner = (sample_owner clock)\<lparr>user_id := Some (fresh_id (map user_id (users s)))\<rparr>;
               s1 = s\<lparr>users := users s @ [owner]\<rparr>;
               new_projects = sample_projects clock (owner_id_or_1 owner);
               new_galleries = sample_galleries clock (owner_id_or_1 owner);
               new_three_d = sample_three_d_projects clock
           in if \<not> unique_ok project_slug (projects s1) new_projects
              then (s1, Inl IntegrityError)
              else
          (let s2 = s1\<lparr>site_config := add_rows config_id (\<lambda>i r. r\<lparr>config_id := Some i\<rparr>)
                                        (site_config s1) [sample_site_config clock],
                        projects := add_rows project_id (\<lambda>i r. r\<lparr>project_id := Some i\<rparr>)
                                        (projects s1) new_projects\<rparr>
           in if \<not> unique_ok gallery_slug (galleries s2) new_galleries
              then (s2, Inl IntegrityError)
              else
          (let s3 = s2\<lparr>galleries := add_rows gallery_id (\<lambda>i r. r\<lparr>gallery_id := Some i\<rparr>)
                                        (galleries s2) new_galleries\<rparr>
           in if \<not> unique_ok three_d_slug (three_d_projects s3) new_three_d
              then (s3, Inl IntegrityError)
              else (s3\<lparr>three_d_projects :=
                          add_rows three_d_id (\<lambda>i r. r\<lparr>three_d_id := Some i\<rparr>)
                            (three_d_projects s3) new_three_d\<rparr>, Inr ())))))"

text \<open>
  The operations of the two services as data, and the store each leaves behind.
  The methods that only read leave the store as they found it, also when the
  statement raises.
\<close>

datatype operation =
    GetSiteConfig
  | GetPortfolioOwner
  | GetFeaturedProjects int
  | GetProjectsByType ProjectType "int option"
  | GetProjectBySlug string
  | GetProjectImages int
  | GetFeaturedGalleries int
  | GetGalleriesByType GalleryType "int option"
  | GetGalleryBySlug string
  | GetGalleryPhotos int
  | GetFeatured3dProjects int
  | Get3dProjectBySlug string
  | Get3dProjectRenders int
  | CreateContactMessage ContactMessageCreate string string
  | GetRecentMessages int
  | CreateSampleData

fun store_after :: "engine \<Rightarrow> clock \<Rightarrow> operation \<Rightarrow> store \<Rightarrow> store" where
  "store_after engine clock (GetProjectBySlug slug) s = fst (get_project_by_slug s slug)"
| "store_after engine clock (GetGalleryBySlug slug) s = fst (get_gallery_by_slug s slug)"
| "store_after engine clock (Get3dProjectBySlug slug) s = fst (get_3d_project_by_slug s slug)"
| "store_after engine clock (CreateContactMessage message_data ip_address user_agent) s =
     fst (create_contact_message engine s (clock 0) message_data ip_address user_agent)"
| "store_after engine clock CreateSampleData s = fst (create_sample_data clock s)"
| "store_after engine clock other s = s"

section \<open>Schema constraints and test fixtures\<close>

text \<open>
  The constraints app/models.py declares on the tables, which the store enforces:
  every \<open>id\<close> is a primary key, and \<open>users.email\<close> and the three \<open>slug\<close> columns are
  \<open>unique=True\<close>.
\<close>

definition constraints_hold :: "store \<Rightarrow> bool" where
  "constraints_hold s \<longleftrightarrow>
     distinct (map user_id (users s)) \<and> distinct (map user_email (users s)) \<and>
     distinct (map project_id (projects s)) \<and> distinct (map project_slug (projects s)) \<and>
     distinct (map image_id (project_images s)) \<and>
     distinct (map section_id (project_sections s)) \<and>
     distinct (map gallery_id (galleries s)) \<and> distinct (map gallery_slug (galleries s)) \<and>
     distinct (map photo_id (photos s)) \<and>
     distinct (map three_d_id (three_d_projects s)) \<and>
     distinct (map three_d_slug (three_d_projects s)) \<and>
     distinct (map render_id (three_d_renders s)) \<and>
     distinct (map message_id (contact_messages s)) \<and>
     distinct (map config_id (site_config s))"

text \<open>
  The fixture of tests/test_services.py: \<open>reset_db()\<close>, then
  \<open>SeedDataService.create_sample_data()\<close>, under a clock that advances by one at
  each reading.
\<close>

definition ticking_clock :: clock where
  "ticking_clock k = int k"

definition seeded_store :: store where
  "seeded_store = fst (create_sample_data ticking_clock fresh_store)"



text \<open>
  A store in which nothing is listed: the seeded store with its first project set to
  \<open>draft\<close>, its second to \<open>archived\<close>, and its only gallery private.
\<close>

definition draft_project :: Project where
  "draft_project =
     (sample_project_ecoshop ticking_clock 1)\<lparr>project_id := Some 1, project_status := DRAFT\<rparr>"

definition archived_project :: Project where
  "archived_project =
     (sample_project_mindfulspace ticking_clock 1)\<lparr>project_id := Some 2,
        project_status := ARCHIVED\<rparr>"

definition private_gallery :: Gallery where
  "private_gallery =
     (sample_gallery_urban ticking_clock 1)\<lparr>gallery_id := Some 1, gallery_is_public := False\<rparr>"

definition unlisted_store :: store where
  "unlisted_store = seeded_store\<lparr>projects := [draft_project, archived_project],
                                 galleries := [private_gallery]\<rparr>"

text \<open>
  The three messages of \<open>test_get_recent_messages\<close>, and the store after they are
  created in a fresh store at the times 0, 1 and 2, with the default \<open>ip_address\<close>
  and \<open>user_agent\<close>.
\<close>

definition user_0 :: ContactMessageCreate where
  "user_0 = \<lparr>data_name = ''User 0'', data_email = ''user0@example.com'',
              data_subject = ''Subject 0'', data_message = ''Message content 0''\<rparr>"

definition user_1 :: ContactMessageCreate where
  "user_1 = \<lparr>data_name = ''User 1'', data_email = ''user1@example.com'',
              data_subject = ''Subject 1'', data_message = ''Message content 1''\<rparr>"

definition user_2 :: ContactMessageCreate where
  "user_2 = \<lparr>data_name = ''User 2'', data_email = ''user2@example.com'',
              data_subject = ''Subject 2'', data_message = ''Message content 2''\<rparr>"

definition three_messages_store :: store where
  "three_messages_store =
     fst (create_contact_message Strict
            (fst (create_contact_message Strict
                    (fst (create_contact_message Strict fresh_store 0 user_0 '''' ''''))
                    1 user_1 '''' ''''))
            2 user_2 '''' '''')"

text \<open>
  The same three messages under a clock that does not advance: all three are
  created at time 0.
\<close>

definition frozen_clock_store :: store where
  "frozen_clock_store =
     fst (create_contact_message Strict
            (fst (create_contact_message Strict
                    (fst (create_contact_message Strict fresh_store 0 user_0 '''' ''''))
                    0 user_1 '''' ''''))
            0 user_2 '''' '''')"

text \<open>
  The same three messages, at the times 0, 1 and 2, in a store that already holds a
  message with a later \<open>created_at\<close>, 5.
\<close>

definition later_message :: ContactMessage where
  "later_message = \<lparr>message_id = Some 1, message_name = ''Earlier'',
     message_email = ''earlier@example.com'', message_subject = ''Subject'',
     message_message = ''Message content'', message_status = NEW, message_ip_address = '''',
     message_user_agent = '''', message_replied_at = None, message_created_at = 5\<rparr>"

definition later_message_store :: store where
  "later_message_store =
     fst (create_contact_message Strict
            (fst (create_contact_message Strict
                    (fst (create_contact_message Strict
                            (fresh_store\<lparr>contact_messages := [later_message]\<rparr>)
                            0 user_0 '''' ''''))
                    1 user_1 '''' ''''))
            2 user_2 '''' '''')"

text \<open>
  The input of \<open>test_create_contact_message\<close>, and an \<open>ip_address\<close> of 46
  characters, one more than the column takes.
\<close>

definition john_doe :: ContactMessageCreate where
  "john_doe = \<lparr>data_name = ''John Doe'', data_email = ''john@example.com'',
                data_subject = ''Project Inquiry'',
                data_message = ''I would like to discuss a potential project.''\<rparr>"

definition long_ip_address :: string where
  "long_ip_address = ''0000:0000:0000:0000:0000:0000:0000:0000:0000:0''"


section \<open>Lemmas on the store primitives\<close>

lemma first_row_filter_None: "first_row (filter P xs) = None \<longleftrightarrow> (\<forall>x\<in>set xs. \<not> P x)"
  by (induction xs) auto

lemma first_row_filter_SomeD: "first_row (filter P xs) = Some x \<Longrightarrow> x \<in> set xs \<and> P x"
  by (induction xs) (auto split: if_splits)

lemma first_row_filter_key:
  "distinct (map key xs) \<Longrightarrow> x \<in> set xs \<Longrightarrow> first_row (filter (\<lambda>y. key y = key x) xs) = Some x"
  by (induction xs) (auto simp: image_iff)

lemma update_by_key:
  assumes "distinct (map key xs)" and "x \<in> set xs"
  shows "map (\<lambda>q. if key q = key x then f q else q) xs = map (\<lambda>q. if q = x then f q else q) xs"
proof (rule map_cong [OF refl])
  fix q assume "q \<in> set xs"
  with assms have "key q = key x \<longleftrightarrow> q = x"
    by (auto simp: distinct_map dest: inj_onD)
  then show "(if key q = key x then f q else q) = (if q = x then f q else q)" by simp
qed

lemma refresh_by_key:
  assumes d: "distinct (map key xs)" and x: "x \<in> set xs" and k: "\<And>q. key (f q) = key q"
  shows "first_row (filter (\<lambda>q. key q = key x) (map (\<lambda>q. if key q = key x then f q else q) xs))
           = Some (f x)"
proof -
  let ?ys = "map (\<lambda>q. if key q = key x then f q else q) xs"
  have same: "map key ?ys = map key xs" by (induction xs) (simp_all add: k)
  have "distinct (map key ?ys)" unfolding same by (rule d)
  moreover from x have "f x \<in> set ?ys" by force
  ultimately have "first_row (filter (\<lambda>q. key q = key (f x)) ?ys) = Some (f x)"
    by (rule first_row_filter_key)
  then show ?thesis by (simp add: k)
qed


section \<open>Slug lookups: miss and hit\<close>

lemma get_project_by_slug_miss:
  assumes "slug \<notin> set (map project_slug (projects s))"
  shows "get_project_by_slug s slug = (s, None)"
proof -
  from assms have "first_row (filter (\<lambda>p. project_slug p = slug) (projects s)) = None"
    by (auto simp: first_row_filter_None)
  then show ?thesis by (simp add: get_project_by_slug_def)
qed

lemma get_gallery_by_slug_miss:
  assumes "slug \<notin> set (map gallery_slug (galleries s))"
  shows "get_gallery_by_slug s slug = (s, None)"
proof -
  from assms have "first_row (filter (\<lambda>g. gallery_slug g = slug) (galleries s)) = None"
    by (auto simp: first_row_filter_None)
  then show ?thesis by (simp add: get_gallery_by_slug_def)
qed

lemma get_3d_project_by_slug_miss:
  assumes "slug \<notin> set (map three_d_slug (three_d_projects s))"
  shows "get_3d_project_by_slug s slug = (s, None)"
proof -
  from assms have "first_row (filter (\<lambda>p. three_d_slug p = slug) (three_d_projects s)) = None"
    by (auto simp: first_row_filter_None)
  then show ?thesis by (simp add: get_3d_project_by_slug_def)
qed

lemma get_project_by_slug_hit:
  assumes ids: "distinct (map project_id (projects s))"
    and slugs: "distinct (map project_slug (projects s))"
    and p: "p \<in> set (projects s)"
  shows "get_project_by_slug s (project_slug p) =
           (s\<lparr>projects := map (\<lambda>q. if q = p
                                     then q\<lparr>project_view_count := project_view_count p + 1\<rparr>
                                     else q) (projects s)\<rparr>,
            Some (p\<lparr>project_view_count := project_view_count p + 1\<rparr>))"
proof -
  let ?f = "\<lambda>q. q\<lparr>project_view_count := project_view_count p + 1\<rparr>"
  have found: "first_row (filter (\<lambda>q. project_slug q = project_slug p) (projects s)) = Some p"
    using slugs p by (rule first_row_filter_key)
  have rows: "map (\<lambda>q. if project_id q = project_id p then ?f q else q) (projects s)
                = map (\<lambda>q. if q = p then ?f q else q) (projects s)"
    using ids p by (rule update_by_key)
  have again: "first_row (filter (\<lambda>q. project_id q = project_id p)
                 (map (\<lambda>q. if project_id q = project_id p then ?f q else q) (projects s)))
               = Some (?f p)"
    using ids p by (rule refresh_by_key) simp
  show ?thesis
    unfolding get_project_by_slug_def found using rows again by (simp add: Let_def)
qed

lemma get_gallery_by_slug_hit:
  assumes ids: "distinct (map gallery_id (galleries s))"
    and slugs: "distinct (map gallery_slug (galleries s))"
    and g: "g \<in> set (galleries s)"
  shows "get_gallery_by_slug s (gallery_slug g) =
           (s\<lparr>galleries := map (\<lambda>q. if q = g
                                      then q\<lparr>gallery_view_count := gallery_view_count g + 1\<rparr>
                                      else q) (galleries s)\<rparr>,
            Some (g\<lparr>gallery_view_count := gallery_view_count g + 1\<rparr>))"
proof -
  let ?f = "\<lambda>q. q\<lparr>gallery_view_count := gallery_view_count g + 1\<rparr>"
  have found: "first_row (filter (\<lambda>q. gallery_slug q = gallery_slug g) (galleries s)) = Some g"
    using slugs g by (rule first_row_filter_key)
  have rows: "map (\<lambda>q. if gallery_id q = gallery_id g then ?f q else q) (galleries s)
                = map (\<lambda>q. if q = g then ?f q else q) (galleries s)"
    using ids g by (rule update_by_key)
  have again: "first_row (filter (\<lambda>q. gallery_id q = gallery_id g)
                 (map (\<lambda>q. if gallery_id q = gallery_id g then ?f q else q) (galleries s)))
               = Some (?f g)"
    using ids g by (rule refresh_by_key) simp
  show ?thesis
    unfolding get_gallery_by_slug_def found using rows again by (simp add: Let_def)
qed

lemma get_3d_project_by_slug_hit:
  assumes ids: "distinct (map three_d_id (three_d_projects s))"
    and slugs: "distinct (map three_d_slug (three_d_projects s))"
    and p: "p \<in> set (three_d_projects s)"
  shows "get_3d_project_by_slug s (three_d_slug p) =
           (s\<lparr>three_d_projects := map (\<lambda>q. if q = p
                                     then q\<lparr>three_d_view_count := three_d_view_count p + 1\<rparr>
                                     else q) (three_d_projects s)\<rparr>,
            Some (p\<lparr>three_d_view_count := three_d_view_count p + 1\<rparr>))"
proof -
  let ?f = "\<lambda>q. q\<lparr>three_d_view_count := three_d_view_count p + 1\<rparr>"
  have found: "first_row (filter (\<lambda>q. three_d_slug q = three_d_slug p) (three_d_projects s)) = Some p"
    using slugs p by (rule first_row_filter_key)
  have rows: "map (\<lambda>q. if three_d_id q = three_d_id p then ?f q else q) (three_d_projects s)
                = map (\<lambda>q. if q = p then ?f q else q) (three_d_projects s)"
    using ids p by (rule update_by_key)
  have again: "first_row (filter (\<lambda>q. three_d_id q = three_d_id p)
                 (map (\<lambda>q. if three_d_id q = three_d_id p then ?f q else q) (three_d_projects s)))
               = Some (?f p)"
    using ids p by (rule refresh_by_key) simp
  show ?thesis
    unfolding get_3d_project_by_slug_def found using rows again by (simp add: Let_def)
qed


section \<open>Ordering and truncation\<close>

lemma set_insert_row: "set (insert_row ahead r xs) = insert r (set xs)"
  by (induction xs) auto

lemma mset_insert_row: "mset (insert_row ahead r xs) = add_mset r (mset xs)"
  by (induction xs) auto

lemma mset_order_by: "mset (order_by ahead xs) = mset xs"
  by (induction xs) (simp_all add: mset_insert_row)

lemma set_order_by: "set (order_by ahead xs) = set xs"
  by (induction xs) (simp_all add: set_insert_row)

lemma length_order_by: "length (order_by ahead xs) = length xs"
  using mset_order_by [of ahead xs] by (metis size_mset)

lemma sorted_insert_row:
  assumes total: "\<And>a b. ahead a b \<or> ahead b a"
    and trans: "\<And>a b c. ahead a b \<Longrightarrow> ahead b c \<Longrightarrow> ahead a c"
  shows "sorted_wrt ahead xs \<Longrightarrow> sorted_wrt ahead (insert_row ahead r xs)"
proof (induction xs)
  case Nil
  then show ?case by simp
next
  case (Cons x xs)
  show ?case
  proof (cases "ahead r x")
    case True
    with Cons.prems trans show ?thesis by auto
  next
    case False
    with total have "ahead x r" by blast
    with False Cons show ?thesis by (auto simp: set_insert_row)
  qed
qed

lemma sorted_order_by:
  assumes "\<And>a b. ahead a b \<or> ahead b a"
    and "\<And>a b c. ahead a b \<Longrightarrow> ahead b c \<Longrightarrow> ahead a c"
  shows "sorted_wrt ahead (order_by ahead xs)"
  by (induction xs) (simp_all add: sorted_insert_row [of ahead, OF assms])

lemma sorted_project_desc: "sorted_wrt project_desc (order_by project_desc xs)"
  by (rule sorted_order_by) (auto simp: project_desc_def)

lemma sorted_gallery_desc: "sorted_wrt gallery_desc (order_by gallery_desc xs)"
  by (rule sorted_order_by) (auto simp: gallery_desc_def)

lemma sorted_three_d_desc: "sorted_wrt three_d_desc (order_by three_d_desc xs)"
  by (rule sorted_order_by) (auto simp: three_d_desc_def)

lemma sorted_message_desc: "sorted_wrt message_desc (order_by message_desc xs)"
  by (rule sorted_order_by) (auto simp: message_desc_def)

lemma limit_rows_nonneg: "0 \<le> n \<Longrightarrow> limit_rows engine n rows = Inr (take (nat n) rows)"
  by (simp add: limit_rows_def)

lemma limit_rows_InrD:
  "limit_rows engine n rows = Inr out \<Longrightarrow> out = rows \<or> (0 \<le> n \<and> out = take (nat n) rows)"
  by (auto simp: limit_rows_def split: if_splits engine.splits)

lemma limit_rows_subset: "limit_rows engine n rows = Inr out \<Longrightarrow> set out \<subseteq> set rows"
  by (auto dest!: limit_rows_InrD dest: in_set_takeD)

lemma limit_rows_sorted:
  "limit_rows engine n rows = Inr out \<Longrightarrow> sorted_wrt ahead rows \<Longrightarrow> sorted_wrt ahead out"
  by (auto dest!: limit_rows_InrD simp: sorted_wrt_take)

lemma length_take_int: "0 \<le> n \<Longrightarrow> int (length (take (nat n) rows)) \<le> n"
  by simp


section \<open>Two lookups in a row\<close>

lemma map_key_update:
  "(\<And>q. key (f q) = key q) \<Longrightarrow> map key (map (\<lambda>q. if c q then f q else q) xs) = map key xs"
  by (induction xs) simp_all

lemma get_project_by_slug_twice:
  assumes ids: "distinct (map project_id (projects s))"
    and slugs: "distinct (map project_slug (projects s))"
    and p: "p \<in> set (projects s)"
  shows "\<exists>s1 s2. get_project_by_slug s (project_slug p)
                    = (s1, Some (p\<lparr>project_view_count := project_view_count p + 1\<rparr>)) \<and>
                 get_project_by_slug s1 (project_slug p)
                    = (s2, Some (p\<lparr>project_view_count := project_view_count p + 2\<rparr>))"
proof -
  let ?p1 = "p\<lparr>project_view_count := project_view_count p + 1\<rparr>"
  let ?rows = "map (\<lambda>q. if q = p then q\<lparr>project_view_count := project_view_count p + 1\<rparr> else q)
                 (projects s)"
  let ?s1 = "s\<lparr>projects := ?rows\<rparr>"
  have first: "get_project_by_slug s (project_slug p) = (?s1, Some ?p1)"
    using ids slugs p by (rule get_project_by_slug_hit)
  have rows1: "projects ?s1 = ?rows" by simp
  have same_ids: "map project_id ?rows = map project_id (projects s)"
    by (rule map_key_update) simp
  have same_slugs: "map project_slug ?rows = map project_slug (projects s)"
    by (rule map_key_update) simp
  have ids1: "distinct (map project_id (projects ?s1))"
    unfolding rows1 same_ids by (rule ids)
  have slugs1: "distinct (map project_slug (projects ?s1))"
    unfolding rows1 same_slugs by (rule slugs)
  from p have p1: "?p1 \<in> set (projects ?s1)" by force
  from get_project_by_slug_hit [OF ids1 slugs1 p1]
  have "\<exists>s2. get_project_by_slug ?s1 (project_slug p)
                = (s2, Some (p\<lparr>project_view_count := project_view_count p + 2\<rparr>))"
    by simp
  with first show ?thesis by blast
qed

lemma get_gallery_by_slug_twice:
  assumes ids: "distinct (map gallery_id (galleries s))"
    and slugs: "distinct (map gallery_slug (galleries s))"
    and g: "g \<in> set (galleries s)"
  shows "\<exists>s1 s2. get_gallery_by_slug s (gallery_slug g)
                    = (s1, Some (g\<lparr>gallery_view_count := gallery_view_count g + 1\<rparr>)) \<and>
                 get_gallery_by_slug s1 (gallery_slug g)
                    = (s2, Some (g\<lparr>gallery_view_count := gallery_view_count g + 2\<rparr>))"
proof -
  let ?g1 = "g\<lparr>gallery_view_count := gallery_view_count g + 1\<rparr>"
  let ?rows = "map (\<lambda>q. if q = g then q\<lparr>gallery_view_count := gallery_view_count g + 1\<rparr> else q)
                 (galleries s)"
  let ?s1 = "s\<lparr>galleries := ?rows\<rparr>"
  have first: "get_gallery_by_slug s (gallery_slug g) = (?s1, Some ?g1)"
    using ids slugs g by (rule get_gallery_by_slug_hit)
  have rows1: "galleries ?s1 = ?rows" by simp
  have same_ids: "map gallery_id ?rows = map gallery_id (galleries s)"
    by (rule map_key_update) simp
  have same_slugs: "map gallery_slug ?rows = map gallery_slug (galleries s)"
    by (rule map_key_update) simp
  have ids1: "distinct (map gallery_id (galleries ?s1))"
    unfolding rows1 same_ids by (rule ids)
  have slugs1: "distinct (map gallery_slug (galleries ?s1))"
    unfolding rows1 same_slugs by (rule slugs)
  from g have g1: "?g1 \<in> set (galleries ?s1)" by force
  from get_gallery_by_slug_hit [OF ids1 slugs1 g1]
  have "\<exists>s2. get_gallery_by_slug ?s1 (gallery_slug g)
                = (s2, Some (g\<lparr>gallery_view_count := gallery_view_count g + 2\<rparr>))"
    by simp
  with first show ?thesis by blast
qed

lemma get_3d_project_by_slug_twice:
  assumes ids: "distinct (map three_d_id (three_d_projects s))"
    and slugs: "distinct (map three_d_slug (three_d_projects s))"
    and p: "p \<in> set (three_d_projects s)"
  shows "\<exists>s1 s2. get_3d_project_by_slug s (three_d_slug p)
                    = (s1, Some (p\<lparr>three_d_view_count := three_d_view_count p + 1\<rparr>)) \<and>
                 get_3d_project_by_slug s1 (three_d_slug p)
                    = (s2, Some (p\<lparr>three_d_view_count := three_d_view_count p + 2\<rparr>))"
proof -
  let ?p1 = "p\<lparr>three_d_view_count := three_d_view_count p + 1\<rparr>"
  let ?rows = "map (\<lambda>q. if q = p then q\<lparr>three_d_view_count := three_d_view_count p + 1\<rparr> else q)
                 (three_d_projects s)"
  let ?s1 = "s\<lparr>three_d_projects := ?rows\<rparr>"
  have first: "get_3d_project_by_slug s (three_d_slug p) = (?s1, Some ?p1)"
    using ids slugs p by (rule get_3d_project_by_slug_hit)
  have rows1: "three_d_projects ?s1 = ?rows" by simp
  have same_ids: "map three_d_id ?rows = map three_d_id (three_d_projects s)"
    by (rule map_key_update) simp
  have same_slugs: "map three_d_slug ?rows = map three_d_slug (three_d_projects s)"
    by (rule map_key_update) simp
  have ids1: "distinct (map three_d_id (three_d_projects ?s1))"
    unfolding rows1 same_ids by (rule ids)
  have slugs1: "distinct (map three_d_slug (three_d_projects ?s1))"
    unfolding rows1 same_slugs by (rule slugs)
  from p have p1: "?p1 \<in> set (three_d_projects ?s1)" by force
  from get_3d_project_by_slug_hit [OF ids1 slugs1 p1]
  have "\<exists>s2. get_3d_project_by_slug ?s1 (three_d_slug p)
                = (s2, Some (p\<lparr>three_d_view_count := three_d_view_count p + 2\<rparr>))"
    by simp
  with first show ?thesis by blast
qed


section \<open>The seeded store\<close>

lemma sample_project_fields:
  "project_id (sample_project_ecoshop clock owner_id) = None"
  "project_slug (sample_project_ecoshop clock owner_id) = ''ecoshop-mobile-app''"
  "project_project_type (sample_project_ecoshop clock owner_id) = UI_UX"
  "project_status (sample_project_ecoshop clock owner_id) = PUBLISHED"
  "project_featured (sample_project_ecoshop clock owner_id)"
  "project_sort_order (sample_project_ecoshop clock owner_id) = 1"
  "project_view_count (sample_project_ecoshop clock owner_id) = 0"
  "project_created_at (sample_project_ecoshop clock owner_id) = clock 3"
  "project_id (sample_project_mindfulspace clock owner_id) = None"
  "project_slug (sample_project_mindfulspace clock owner_id) = ''mindfulspace-dashboard''"
  "project_project_type (sample_project_mindfulspace clock owner_id) = UI_UX"
  "project_status (sample_project_mindfulspace clock owner_id) = PUBLISHED"
  "project_featured (sample_project_mindfulspace clock owner_id)"
  "project_sort_order (sample_project_mindfulspace clock owner_id) = 2"
  "project_view_count (sample_project_mindfulspace clock owner_id) = 0"
  "project_created_at (sample_project_mindfulspace clock owner_id) = clock 5"
  by (simp_all add: sample_project_ecoshop_def sample_project_mindfulspace_def)

lemma sample_gallery_fields:
  "gallery_id (sample_gallery_urban clock owner_id) = None"
  "gallery_slug (sample_gallery_urban clock owner_id) = ''urban-landscapes''"
  "gallery_gallery_type (sample_gallery_urban clock owner_id) = PORTFOLIO"
  "gallery_featured (sample_gallery_urban clock owner_id)"
  "gallery_is_public (sample_gallery_urban clock owner_id)"
  "gallery_sort_order (sample_gallery_urban clock owner_id) = 1"
  "gallery_view_count (sample_gallery_urban clock owner_id) = 0"
  "gallery_created_at (sample_gallery_urban clock owner_id) = clock 7"
  "gallery_id (sample_gallery_portrait clock owner_id) = None"
  "gallery_slug (sample_gallery_portrait clock owner_id) = ''portrait-sessions''"
  "gallery_gallery_type (sample_gallery_portrait clock owner_id) = CLIENT"
  "gallery_featured (sample_gallery_portrait clock owner_id)"
  "gallery_is_public (sample_gallery_portrait clock owner_id)"
  "gallery_sort_order (sample_gallery_portrait clock owner_id) = 2"
  "gallery_view_count (sample_gallery_portrait clock owner_id) = 0"
  "gallery_created_at (sample_gallery_portrait clock owner_id) = clock 9"
  by (simp_all add: sample_gallery_urban_def sample_gallery_portrait_def)

lemma sample_three_d_fields:
  "three_d_id (sample_three_d_living_room clock) = None"
  "three_d_slug (sample_three_d_living_room clock) = ''modern-living-room''"
  "three_d_featured (sample_three_d_living_room clock)"
  "three_d_sort_order (sample_three_d_living_room clock) = 1"
  "three_d_view_count (sample_three_d_living_room clock) = 0"
  "three_d_created_at (sample_three_d_living_room clock) = clock 11"
  "three_d_id (sample_three_d_abstract clock) = None"
  "three_d_slug (sample_three_d_abstract clock) = ''abstract-composition''"
  "three_d_featured (sample_three_d_abstract clock)"
  "three_d_sort_order (sample_three_d_abstract clock) = 2"
  "three_d_view_count (sample_three_d_abstract clock) = 0"
  "three_d_created_at (sample_three_d_abstract clock) = clock 13"
  by (simp_all add: sample_three_d_living_room_def sample_three_d_abstract_def)

lemma sample_owner_fields:
  "user_id (sample_owner clock) = None"
  "user_name (sample_owner clock) = ''Alexandra Smith''"
  "user_email (sample_owner clock) = ''alex@portfolio.com''"
  "user_is_active (sample_owner clock)"
  by (simp_all add: sample_owner_def)

lemma sample_rows_fit:
  "user_fits (sample_owner clock)"
  "config_fits (sample_site_config clock)"
  "project_fits (sample_project_ecoshop clock owner_id)"
  "project_fits (sample_project_mindfulspace clock owner_id)"
  "gallery_fits (sample_gallery_urban clock owner_id)"
  "gallery_fits (sample_gallery_portrait clock owner_id)"
  "three_d_fits (sample_three_d_living_room clock)"
  "three_d_fits (sample_three_d_abstract clock)"
  by (simp_all add: user_fits_def config_fits_def project_fits_def gallery_fits_def
        three_d_fits_def sample_owner_def sample_site_config_def sample_project_ecoshop_def
        sample_project_mindfulspace_def sample_gallery_urban_def sample_gallery_portrait_def
        sample_three_d_living_room_def sample_three_d_abstract_def)

lemma fresh_id_simps:
  "fresh_id [] = 1"
  "fresh_id [Some 1] = 2"
  by (simp_all add: fresh_id_def)

lemma create_sample_data_fresh:
  "create_sample_data clock fresh_store =
     (\<lparr>users = [(sample_owner clock)\<lparr>user_id := Some 1\<rparr>],
       projects = [(sample_project_ecoshop clock 1)\<lparr>project_id := Some 1\<rparr>,
                   (sample_project_mindfulspace clock 1)\<lparr>project_id := Some 2\<rparr>],
       project_images = [], project_sections = [],
       galleries = [(sample_gallery_urban clock 1)\<lparr>gallery_id := Some 1\<rparr>,
                    (sample_gallery_portrait clock 1)\<lparr>gallery_id := Some 2\<rparr>],
       photos = [],
       three_d_projects = [(sample_three_d_living_room clock)\<lparr>three_d_id := Some 1\<rparr>,
                           (sample_three_d_abstract clock)\<lparr>three_d_id := Some 2\<rparr>],
       three_d_renders = [], contact_messages = [],
       site_config = [(sample_site_config clock)\<lparr>config_id := Some 1\<rparr>]\<rparr>, Inr ())"
  by (simp add: create_sample_data_def fresh_store_def Let_def unique_ok_def fresh_id_simps
        owner_id_or_1_def sample_projects_def sample_galleries_def sample_three_d_projects_def
        sample_project_fields sample_gallery_fields sample_three_d_fields)

lemma seeded_tables:
  "users seeded_store = [(sample_owner ticking_clock)\<lparr>user_id := Some 1\<rparr>]"
  "projects seeded_store = [(sample_project_ecoshop ticking_clock 1)\<lparr>project_id := Some 1\<rparr>,
                            (sample_project_mindfulspace ticking_clock 1)\<lparr>project_id := Some 2\<rparr>]"
  "project_images seeded_store = []"
  "project_sections seeded_store = []"
  "galleries seeded_store = [(sample_gallery_urban ticking_clock 1)\<lparr>gallery_id := Some 1\<rparr>,
                             (sample_gallery_portrait ticking_clock 1)\<lparr>gallery_id := Some 2\<rparr>]"
  "photos seeded_store = []"
  "three_d_projects seeded_store =
     [(sample_three_d_living_room ticking_clock)\<lparr>three_d_id := Some 1\<rparr>,
      (sample_three_d_abstract ticking_clock)\<lparr>three_d_id := Some 2\<rparr>]"
  "three_d_renders seeded_store = []"
  "contact_messages seeded_store = []"
  "site_config seeded_store = [(sample_site_config ticking_clock)\<lparr>config_id := Some 1\<rparr>]"
  by (simp_all add: seeded_store_def create_sample_data_fresh)

lemma seeded_slugs:
  "map project_slug (projects seeded_store) = [''ecoshop-mobile-app'', ''mindfulspace-dashboard'']"
  "map gallery_slug (galleries seeded_store) = [''urban-landscapes'', ''portrait-sessions'']"
  "map three_d_slug (three_d_projects seeded_store)
     = [''modern-living-room'', ''abstract-composition'']"
  by (simp_all add: seeded_tables sample_project_fields sample_gallery_fields
        sample_three_d_fields)

lemma constraints_hold_seeded: "constraints_hold seeded_store"
  by (simp add: constraints_hold_def seeded_tables sample_project_fields sample_gallery_fields
        sample_three_d_fields)

lemma unlisted_tables:
  "projects unlisted_store = [draft_project, archived_project]"
  "galleries unlisted_store = [private_gallery]"
  by (simp_all add: unlisted_store_def)

lemma unlisted_fields:
  "project_id draft_project = Some 1"
  "project_slug draft_project = ''ecoshop-mobile-app''"
  "project_status draft_project = DRAFT"
  "project_id archived_project = Some 2"
  "project_slug archived_project = ''mindfulspace-dashboard''"
  "project_status archived_project = ARCHIVED"
  "gallery_id private_gallery = Some 1"
  "gallery_slug private_gallery = ''urban-landscapes''"
  "gallery_is_public private_gallery = False"
  "gallery_featured private_gallery"
  by (simp_all add: draft_project_def archived_project_def private_gallery_def
        sample_project_fields sample_gallery_fields)

lemma constraints_hold_unlisted: "constraints_hold unlisted_store"
  using constraints_hold_seeded
  by (simp add: constraints_hold_def unlisted_store_def unlisted_fields)


lemma seeded_featured_projects:
  "order_by project_desc
     (filter (\<lambda>p. project_status p = PUBLISHED \<and> project_featured p) (projects seeded_store))
   = rev (projects seeded_store)"
  by (simp add: seeded_tables sample_project_fields project_desc_def)

lemma seeded_projects_by_type:
  "order_by project_desc
     (filter (\<lambda>p. project_status p = PUBLISHED \<and> project_project_type p = UI_UX)
        (projects seeded_store))
   = rev (projects seeded_store)"
  by (simp add: seeded_tables sample_project_fields project_desc_def)

lemma seeded_galleries_by_type:
  "order_by gallery_desc
     (filter (\<lambda>g. gallery_is_public g \<and> gallery_gallery_type g = PORTFOLIO)
        (galleries seeded_store))
   = [(sample_gallery_urban ticking_clock 1)\<lparr>gallery_id := Some 1\<rparr>]"
  by (simp add: seeded_tables sample_gallery_fields gallery_desc_def)


section \<open>Identifiers assigned by the store\<close>

lemma fold_max_ge: "m \<le> fold (\<lambda>i m. case i of None \<Rightarrow> m | Some j \<Rightarrow> max j m) ids (m::int)"
proof (induction ids arbitrary: m)
  case Nil
  then show ?case by simp
next
  case (Cons i ids)
  show ?case
  proof (cases i)
    case None
    with Cons.IH [of m] show ?thesis by simp
  next
    case (Some j)
    with Cons.IH [of "max j m"] show ?thesis by simp
  qed
qed

lemma fold_max_bound:
  "Some j \<in> set ids \<Longrightarrow> j \<le> fold (\<lambda>i m. case i of None \<Rightarrow> m | Some j \<Rightarrow> max j m) ids (m::int)"
proof (induction ids arbitrary: m)
  case Nil
  then show ?case by simp
next
  case (Cons i ids)
  show ?case
  proof (cases "i = Some j")
    case True
    with fold_max_ge [of "max j m" ids] show ?thesis by simp
  next
    case False
    with Cons.prems have "Some j \<in> set ids" by simp
    from Cons.IH [OF this] show ?thesis by simp
  qed
qed

lemma fresh_id_greater: "Some j \<in> set ids \<Longrightarrow> j < fresh_id ids"
  using fold_max_bound [of j ids 0] by (simp add: fresh_id_def)

lemma fresh_id_new: "Some (fresh_id ids) \<notin> set ids"
  using fresh_id_greater [of "fresh_id ids" ids] by auto

lemma fresh_id_new_image: "Some (fresh_id (map f xs)) \<notin> f ` set xs"
  using fresh_id_new [of "map f xs"] by simp

lemma fresh_id_positive: "0 < fresh_id ids"
  using fold_max_ge [of 0 ids] by (simp add: fresh_id_def)


section \<open>The newest messages\<close>

lemma order_by_append:
  "order_by ahead (xs @ ys) = foldr (insert_row ahead) xs (order_by ahead ys)"
  by (induction xs) simp_all

lemma insert_rows_behind:
  "\<forall>x\<in>set xs. \<not> ahead x a \<and> \<not> ahead x b \<Longrightarrow>
   foldr (insert_row ahead) xs (a # b # ys) = a # b # foldr (insert_row ahead) xs ys"
  by (induction xs) simp_all

lemma contact_messages_after_create:
  "create_contact_message engine s now message_data ip_address user_agent = (s', Inr m) \<Longrightarrow>
   contact_messages s' = contact_messages s @ [m] \<and> message_created_at m = now"
  by (auto simp: create_contact_message_def Let_def split: if_splits)

lemma newest_two_first:
  assumes old: "\<forall>m\<in>set old. message_created_at m < message_created_at m1"
    and "message_created_at m0 < message_created_at m1"
    and "message_created_at m1 < message_created_at m2"
  shows "take 2 (order_by message_desc (old @ [m0, m1, m2])) = [m2, m1]"
proof -
  from assms(2,3) have three: "order_by message_desc [m0, m1, m2] = [m2, m1, m0]"
    by (simp add: message_desc_def)
  from old assms(3) have "\<forall>x\<in>set old. \<not> message_desc x m2 \<and> \<not> message_desc x m1"
    by (auto simp: message_desc_def)
  then have "foldr (insert_row message_desc) old [m2, m1, m0]
               = m2 # m1 # foldr (insert_row message_desc) old [m0]"
    by (rule insert_rows_behind)
  moreover have "order_by message_desc (old @ [m0, m1, m2])
               = foldr (insert_row message_desc) old [m2, m1, m0]"
    by (simp only: order_by_append three)
  ultimately have "order_by message_desc (old @ [m0, m1, m2])
               = m2 # m1 # foldr (insert_row message_desc) old [m0]"
    by (rule trans [rotated])
  then show ?thesis by (simp only: take_Suc_Cons take_0 numeral_2_eq_2)
qed

lemma short_strings_fit:
  "length name \<le> 100 \<Longrightarrow> length email \<le> 255 \<Longrightarrow> length subject \<le> 200 \<Longrightarrow>
   length message \<le> 2000 \<Longrightarrow> length ip_address \<le> 45 \<Longrightarrow> length user_agent \<le> 500 \<Longrightarrow>
   width_ok engine (message_fits
     \<lparr>message_id = i, message_name = name, message_email = email, message_subject = subject,
       message_message = message, message_status = status, message_ip_address = ip_address,
       message_user_agent = user_agent, message_replied_at = replied,
       message_created_at = now\<rparr>)"
  by (cases engine) (simp_all add: width_ok_def message_fits_def)

lemma create_test_message:
  "create_contact_message engine s now user_0 '''' '''' =
     (s\<lparr>contact_messages := contact_messages s @
          [\<lparr>message_id = Some (fresh_id (map message_id (contact_messages s))),
            message_name = ''User 0'', message_email = ''user0@example.com'',
            message_subject = ''Subject 0'', message_message = ''Message content 0'',
            message_status = NEW, message_ip_address = '''', message_user_agent = '''',
            message_replied_at = None, message_created_at = now\<rparr>]\<rparr>,
      Inr \<lparr>message_id = Some (fresh_id (map message_id (contact_messages s))),
            message_name = ''User 0'', message_email = ''user0@example.com'',
            message_subject = ''Subject 0'', message_message = ''Message content 0'',
            message_status = NEW, message_ip_address = '''', message_user_agent = '''',
            message_replied_at = None, message_created_at = now\<rparr>)"
  "create_contact_message engine s now user_1 '''' '''' =
     (s\<lparr>contact_messages := contact_messages s @
          [\<lparr>message_id = Some (fresh_id (map message_id (contact_messages s))),
            message_name = ''User 1'', message_email = ''user1@example.com'',
            message_subject = ''Subject 1'', message_message = ''Message content 1'',
            message_status = NEW, message_ip_address = '''', message_user_agent = '''',
            message_replied_at = None, message_created_at = now\<rparr>]\<rparr>,
      Inr \<lparr>message_id = Some (fresh_id (map message_id (contact_messages s))),
            message_name = ''User 1'', message_email = ''user1@example.com'',
            message_subject = ''Subject 1'', message_message = ''Message content 1'',
            message_status = NEW, message_ip_address = '''', message_user_agent = '''',
            message_replied_at = None, message_created_at = now\<rparr>)"
  "create_contact_message engine s now user_2 '''' '''' =
     (s\<lparr>contact_messages := contact_messages s @
          [\<lparr>message_id = Some (fresh_id (map message_id (contact_messages s))),
            message_name = ''User 2'', message_email = ''user2@example.com'',
            message_subject = ''Subject 2'', message_message = ''Message content 2'',
            message_status = NEW, message_ip_address = '''', message_user_agent = '''',
            message_replied_at = None, message_created_at = now\<rparr>]\<rparr>,
      Inr \<lparr>message_id = Some (fresh_id (map message_id (contact_messages s))),
            message_name = ''User 2'', message_email = ''user2@example.com'',
            message_subject = ''Subject 2'', message_message = ''Message content 2'',
            message_status = NEW, message_ip_address = '''', message_user_agent = '''',
            message_replied_at = None, message_created_at = now\<rparr>)"
  by (simp_all add: create_contact_message_def Let_def user_0_def user_1_def user_2_def
        short_strings_fit)

lemma three_messages_table:
  "map message_name (contact_messages three_messages_store)
     = [''User 0'', ''User 1'', ''User 2'']"
  "map message_created_at (contact_messages three_messages_store) = [0, 1, 2]"
  by (simp_all add: three_messages_store_def create_test_message fresh_store_def)

lemma frozen_clock_table:
  "map message_name (contact_messages frozen_clock_store)
     = [''User 0'', ''User 1'', ''User 2'']"
  "map message_created_at (contact_messages frozen_clock_store) = [0, 0, 0]"
  by (simp_all add: frozen_clock_store_def create_test_message fresh_store_def)

lemma later_message_table:
  "map message_name (contact_messages later_message_store)
     = [''Earlier'', ''User 0'', ''User 1'', ''User 2'']"
  "map message_created_at (contact_messages later_message_store) = [5, 0, 1, 2]"
  by (simp_all add: later_message_store_def create_test_message fresh_store_def
        later_message_def)


section \<open>What a lookup changes\<close>

lemma get_project_by_slug_SomeD:
  assumes ids: "distinct (map project_id (projects s))"
    and slugs: "distinct (map project_slug (projects s))"
    and run: "get_project_by_slug s slug = (s', Some r)"
  shows "\<exists>p. p \<in> set (projects s) \<and> project_slug p = slug \<and>
             r = p\<lparr>project_view_count := project_view_count p + 1\<rparr> \<and>
             s' = s\<lparr>projects := map (\<lambda>q. if q = p then r else q) (projects s)\<rparr>"
proof (cases "first_row (filter (\<lambda>q. project_slug q = slug) (projects s))")
  case None
  with run show ?thesis by (simp add: get_project_by_slug_def)
next
  case (Some p)
  let ?r = "p\<lparr>project_view_count := project_view_count p + 1\<rparr>"
  from Some have mem: "p \<in> set (projects s)" and slug: "project_slug p = slug"
    by (auto dest: first_row_filter_SomeD)
  have same: "map (\<lambda>q. if q = p then q\<lparr>project_view_count := project_view_count p + 1\<rparr> else q) (projects s)
            = map (\<lambda>q. if q = p then ?r else q) (projects s)"
    by (rule map_cong) simp_all
  have "get_project_by_slug s slug = (s\<lparr>projects := map (\<lambda>q. if q = p then ?r else q) (projects s)\<rparr>, Some ?r)"
    using get_project_by_slug_hit [OF ids slugs mem] by (simp only: slug same)
  with run have r: "r = ?r"
    and s': "s' = s\<lparr>projects := map (\<lambda>q. if q = p then ?r else q) (projects s)\<rparr>"
    by simp_all
  show ?thesis
  proof (intro exI [of _ p] conjI)
    show "p \<in> set (projects s)" by (rule mem)
    show "project_slug p = slug" by (rule slug)
    show "r = ?r" by (rule r)
    show "s' = s\<lparr>projects := map (\<lambda>q. if q = p then r else q) (projects s)\<rparr>"
      unfolding r by (rule s')
  qed
qed

lemma get_gallery_by_slug_SomeD:
  assumes ids: "distinct (map gallery_id (galleries s))"
    and slugs: "distinct (map gallery_slug (galleries s))"
    and run: "get_gallery_by_slug s slug = (s', Some r)"
  shows "\<exists>g. g \<in> set (galleries s) \<and> gallery_slug g = slug \<and>
             r = g\<lparr>gallery_view_count := gallery_view_count g + 1\<rparr> \<and>
             s' = s\<lparr>galleries := map (\<lambda>q. if q = g then r else q) (galleries s)\<rparr>"
proof (cases "first_row (filter (\<lambda>q. gallery_slug q = slug) (galleries s))")
  case None
  with run show ?thesis by (simp add: get_gallery_by_slug_def)
next
  case (Some g)
  let ?r = "g\<lparr>gallery_view_count := gallery_view_count g + 1\<rparr>"
  from Some have mem: "g \<in> set (galleries s)" and slug: "gallery_slug g = slug"
    by (auto dest: first_row_filter_SomeD)
  have same: "map (\<lambda>q. if q = g then q\<lparr>gallery_view_count := gallery_view_count g + 1\<rparr> else q) (galleries s)
            = map (\<lambda>q. if q = g then ?r else q) (galleries s)"
    by (rule map_cong) simp_all
  have "get_gallery_by_slug s slug = (s\<lparr>galleries := map (\<lambda>q. if q = g then ?r else q) (galleries s)\<rparr>, Some ?r)"
    using get_gallery_by_slug_hit [OF ids slugs mem] by (simp only: slug same)
  with run have r: "r = ?r"
    and s': "s' = s\<lparr>galleries := map (\<lambda>q. if q = g then ?r else q) (galleries s)\<rparr>"
    by simp_all
  show ?thesis
  proof (intro exI [of _ g] conjI)
    show "g \<in> set (galleries s)" by (rule mem)
    show "gallery_slug g = slug" by (rule slug)
    show "r = ?r" by (rule r)
    show "s' = s\<lparr>galleries := map (\<lambda>q. if q = g then r else q) (galleries s)\<rparr>"
      unfolding r by (rule s')
  qed
qed

lemma get_3d_project_by_slug_SomeD:
  assumes ids: "distinct (map three_d_id (three_d_projects s))"
    and slugs: "distinct (map three_d_slug (three_d_projects s))"
    and run: "get_3d_project_by_slug s slug = (s', Some r)"
  shows "\<exists>p. p \<in> set (three_d_projects s) \<and> three_d_slug p = slug \<and>
             r = p\<lparr>three_d_view_count := three_d_view_count p + 1\<rparr> \<and>
             s' = s\<lparr>three_d_projects := map (\<lambda>q. if q = p then r else q) (three_d_projects s)\<rparr>"
proof (cases "first_row (filter (\<lambda>q. three_d_slug q = slug) (three_d_projects s))")
  case None
  with run show ?thesis by (simp add: get_3d_project_by_slug_def)
next
  case (Some p)
  let ?r = "p\<lparr>three_d_view_count := three_d_view_count p + 1\<rparr>"
  from Some have mem: "p \<in> set (three_d_projects s)" and slug: "three_d_slug p = slug"
    by (auto dest: first_row_filter_SomeD)
  have same: "map (\<lambda>q. if q = p then q\<lparr>three_d_view_count := three_d_view_count p + 1\<rparr> else q) (three_d_projects s)
            = map (\<lambda>q. if q = p then ?r else q) (three_d_projects s)"
    by (rule map_cong) simp_all
  have "get_3d_project_by_slug s slug = (s\<lparr>three_d_projects := map (\<lambda>q. if q = p then ?r else q) (three_d_projects s)\<rparr>, Some ?r)"
    using get_3d_project_by_slug_hit [OF ids slugs mem] by (simp only: slug same)
  with run have r: "r = ?r"
    and s': "s' = s\<lparr>three_d_projects := map (\<lambda>q. if q = p then ?r else q) (three_d_projects s)\<rparr>"
    by simp_all
  show ?thesis
  proof (intro exI [of _ p] conjI)
    show "p \<in> set (three_d_projects s)" by (rule mem)
    show "three_d_slug p = slug" by (rule slug)
    show "r = ?r" by (rule r)
    show "s' = s\<lparr>three_d_projects := map (\<lambda>q. if q = p then r else q) (three_d_projects s)\<rparr>"
      unfolding r by (rule s')
  qed
qed


section \<open>What the operations keep\<close>

lemma take_add_rows: "take (length tbl) (add_rows get_id set_id tbl new) = tbl"
proof (induction new arbitrary: tbl)
  case Nil
  then show ?case by simp
next
  case (Cons r rs)
  let ?tbl = "tbl @ [set_id (fresh_id (map get_id tbl)) r]"
  have "take (length tbl) (add_rows get_id set_id ?tbl rs)
          = take (length tbl) (take (length ?tbl) (add_rows get_id set_id ?tbl rs))"
    by (simp add: min_def)
  also have "\<dots> = take (length tbl) ?tbl" by (simp only: Cons.IH)
  also have "\<dots> = tbl" by simp
  finally show ?case by simp
qed

lemma add_rows_superset: "set tbl \<subseteq> set (add_rows get_id set_id tbl new)"
  using take_add_rows [of tbl get_id set_id new] set_take_subset by metis

lemma create_sample_data_keeps_rows:
  "set (projects s) \<subseteq> set (projects (fst (create_sample_data clock s)))"
  "set (galleries s) \<subseteq> set (galleries (fst (create_sample_data clock s)))"
  "set (three_d_projects s) \<subseteq> set (three_d_projects (fst (create_sample_data clock s)))"
  by (simp_all add: create_sample_data_def Let_def add_rows_superset split: option.splits)

lemma mapped_member: "x \<in> set xs \<Longrightarrow> y = f x \<Longrightarrow> y \<in> set (map f xs)"
  by simp

lemma lookup_keeps_other_tables:
  "galleries (fst (get_project_by_slug s slug)) = galleries s"
  "three_d_projects (fst (get_project_by_slug s slug)) = three_d_projects s"
  "projects (fst (get_gallery_by_slug s slug)) = projects s"
  "three_d_projects (fst (get_gallery_by_slug s slug)) = three_d_projects s"
  "projects (fst (get_3d_project_by_slug s slug)) = projects s"
  "galleries (fst (get_3d_project_by_slug s slug)) = galleries s"
  by (simp_all add: get_project_by_slug_def get_gallery_by_slug_def get_3d_project_by_slug_def
        Let_def split: option.splits)

lemma create_contact_message_keeps_tables:
  "projects (fst (create_contact_message engine s now message_data ip_address user_agent)) = projects s"
  "galleries (fst (create_contact_message engine s now message_data ip_address user_agent)) = galleries s"
  "three_d_projects (fst (create_contact_message engine s now message_data ip_address user_agent))
     = three_d_projects s"
  by (simp_all add: create_contact_message_def Let_def)

lemma get_project_by_slug_raises:
  assumes ids: "distinct (map project_id (projects s))"
    and slugs: "distinct (map project_slug (projects s))"
    and p: "p \<in> set (projects s)"
  shows "\<exists>p'\<in>set (projects (fst (get_project_by_slug s slug))).
           project_id p' = project_id p \<and> project_view_count p \<le> project_view_count p'"
proof (cases "first_row (filter (\<lambda>q. project_slug q = slug) (projects s))")
  case None
  then have "get_project_by_slug s slug = (s, None)" by (simp add: get_project_by_slug_def)
  with p show ?thesis by auto
next
  case (Some x)
  then have x: "x \<in> set (projects s)" and slug: "project_slug x = slug"
    by (auto dest: first_row_filter_SomeD)
  let ?f = "\<lambda>q. if q = x then q\<lparr>project_view_count := project_view_count x + 1\<rparr> else q"
  from get_project_by_slug_hit [OF ids slugs x]
  have rows: "projects (fst (get_project_by_slug s slug)) = map ?f (projects s)"
    by (simp add: slug)
  have "?f p \<in> set (map ?f (projects s))"
    by (rule mapped_member [OF p]) simp
  moreover have "project_id (?f p) = project_id p" by simp
  moreover have "project_view_count p \<le> project_view_count (?f p)" by simp
  ultimately show ?thesis unfolding rows by blast
qed

lemma get_gallery_by_slug_raises:
  assumes ids: "distinct (map gallery_id (galleries s))"
    and slugs: "distinct (map gallery_slug (galleries s))"
    and g: "g \<in> set (galleries s)"
  shows "\<exists>g'\<in>set (galleries (fst (get_gallery_by_slug s slug))).
           gallery_id g' = gallery_id g \<and> gallery_view_count g \<le> gallery_view_count g'"
proof (cases "first_row (filter (\<lambda>q. gallery_slug q = slug) (galleries s))")
  case None
  then have "get_gallery_by_slug s slug = (s, None)" by (simp add: get_gallery_by_slug_def)
  with g show ?thesis by auto
next
  case (Some x)
  then have x: "x \<in> set (galleries s)" and slug: "gallery_slug x = slug"
    by (auto dest: first_row_filter_SomeD)
  let ?f = "\<lambda>q. if q = x then q\<lparr>gallery_view_count := gallery_view_count x + 1\<rparr> else q"
  from get_gallery_by_slug_hit [OF ids slugs x]
  have rows: "galleries (fst (get_gallery_by_slug s slug)) = map ?f (galleries s)"
    by (simp add: slug)
  have "?f g \<in> set (map ?f (galleries s))"
    by (rule mapped_member [OF g]) simp
  moreover have "gallery_id (?f g) = gallery_id g" by simp
  moreover have "gallery_view_count g \<le> gallery_view_count (?f g)" by simp
  ultimately show ?thesis unfolding rows by blast
qed

lemma get_3d_project_by_slug_raises:
  assumes ids: "distinct (map three_d_id (three_d_projects s))"
    and slugs: "distinct (map three_d_slug (three_d_projects s))"
    and p: "p \<in> set (three_d_projects s)"
  shows "\<exists>p'\<in>set (three_d_projects (fst (get_3d_project_by_slug s slug))).
           three_d_id p' = three_d_id p \<and> three_d_view_count p \<le> three_d_view_count p'"
proof (cases "first_row (filter (\<lambda>q. three_d_slug q = slug) (three_d_projects s))")
  case None
  then have "get_3d_project_by_slug s slug = (s, None)" by (simp add: get_3d_project_by_slug_def)
  with p show ?thesis by auto
next
  case (Some x)
  then have x: "x \<in> set (three_d_projects s)" and slug: "three_d_slug x = slug"
    by (auto dest: first_row_filter_SomeD)
  let ?f = "\<lambda>q. if q = x then q\<lparr>three_d_view_count := three_d_view_count x + 1\<rparr> else q"
  from get_3d_project_by_slug_hit [OF ids slugs x]
  have rows: "three_d_projects (fst (get_3d_project_by_slug s slug)) = map ?f (three_d_projects s)"
    by (simp add: slug)
  have "?f p \<in> set (map ?f (three_d_projects s))"
    by (rule mapped_member [OF p]) simp
  moreover have "three_d_id (?f p) = three_d_id p" by simp
  moreover have "three_d_view_count p \<le> three_d_view_count (?f p)" by simp
  ultimately show ?thesis unfolding rows by blast
qed

lemma project_view_count_kept:
  assumes "constraints_hold s" and p: "p \<in> set (projects s)"
  shows "\<exists>p'\<in>set (projects (store_after engine clock operation s)).
           project_id p' = project_id p \<and> project_view_count p \<le> project_view_count p'"
proof (cases operation)
  case (GetProjectBySlug slug)
  from assms(1) have "distinct (map project_id (projects s))"
    "distinct (map project_slug (projects s))"
    by (simp_all add: constraints_hold_def)
  from get_project_by_slug_raises [OF this p] show ?thesis
    by (simp add: GetProjectBySlug)
next
  case CreateSampleData
  with p create_sample_data_keeps_rows(1) [of s clock] show ?thesis by auto
qed (use p in \<open>auto simp: lookup_keeps_other_tables create_contact_message_keeps_tables\<close>)

lemma gallery_view_count_kept:
  assumes "constraints_hold s" and g: "g \<in> set (galleries s)"
  shows "\<exists>g'\<in>set (galleries (store_after engine clock operation s)).
           gallery_id g' = gallery_id g \<and> gallery_view_count g \<le> gallery_view_count g'"
proof (cases operation)
  case (GetGalleryBySlug slug)
  from assms(1) have "distinct (map gallery_id (galleries s))"
    "distinct (map gallery_slug (galleries s))"
    by (simp_all add: constraints_hold_def)
  from get_gallery_by_slug_raises [OF this g] show ?thesis
    by (simp add: GetGalleryBySlug)
next
  case CreateSampleData
  with g create_sample_data_keeps_rows(2) [of s clock] show ?thesis by auto
qed (use g in \<open>auto simp: lookup_keeps_other_tables create_contact_message_keeps_tables\<close>)

lemma three_d_view_count_kept:
  assumes "constraints_hold s" and p: "p \<in> set (three_d_projects s)"
  shows "\<exists>p'\<in>set (three_d_projects (store_after engine clock operation s)).
           three_d_id p' = three_d_id p \<and> three_d_view_count p \<le> three_d_view_count p'"
proof (cases operation)
  case (Get3dProjectBySlug slug)
  from assms(1) have "distinct (map three_d_id (three_d_projects s))"
    "distinct (map three_d_slug (three_d_projects s))"
    by (simp_all add: constraints_hold_def)
  from get_3d_project_by_slug_raises [OF this p] show ?thesis
    by (simp add: Get3dProjectBySlug)
next
  case CreateSampleData
  with p create_sample_data_keeps_rows(3) [of s clock] show ?thesis by auto
qed (use p in \<open>auto simp: lookup_keeps_other_tables create_contact_message_keeps_tables\<close>)


section \<open>The constraints are invariant\<close>

lemma add_rows_distinct_ids:
  assumes "\<And>i r. get_id (set_id i r) = Some i"
  shows "distinct (map get_id tbl) \<Longrightarrow> distinct (map get_id (add_rows get_id set_id tbl new))"
proof (induction new arbitrary: tbl)
  case Nil
  then show ?case by simp
next
  case (Cons r rs)
  have "distinct (map get_id (tbl @ [set_id (fresh_id (map get_id tbl)) r]))"
    using Cons.prems fresh_id_new [of "map get_id tbl"] by (simp add: assms)
  from Cons.IH [OF this] show ?case by simp
qed

lemma add_rows_keys:
  assumes "\<And>i r. key (set_id i r) = key r"
  shows "map key (add_rows get_id set_id tbl new) = map key tbl @ map key new"
  by (induction new arbitrary: tbl) (simp_all add: assms)

lemma unique_ok_distinct:
  "unique_ok key tbl new \<Longrightarrow> distinct (map key tbl) \<Longrightarrow> distinct (map key tbl @ map key new)"
  by (auto simp: unique_ok_def list_all_iff) (metis imageI)

lemma constraints_hold_projects_update:
  "map project_id rows = map project_id (projects s) \<Longrightarrow>
   map project_slug rows = map project_slug (projects s) \<Longrightarrow>
   constraints_hold (s\<lparr>projects := rows\<rparr>) = constraints_hold s"
  by (simp add: constraints_hold_def)

lemma constraints_hold_galleries_update:
  "map gallery_id rows = map gallery_id (galleries s) \<Longrightarrow>
   map gallery_slug rows = map gallery_slug (galleries s) \<Longrightarrow>
   constraints_hold (s\<lparr>galleries := rows\<rparr>) = constraints_hold s"
  by (simp add: constraints_hold_def)

lemma constraints_hold_three_d_update:
  "map three_d_id rows = map three_d_id (three_d_projects s) \<Longrightarrow>
   map three_d_slug rows = map three_d_slug (three_d_projects s) \<Longrightarrow>
   constraints_hold (s\<lparr>three_d_projects := rows\<rparr>) = constraints_hold s"
  by (simp add: constraints_hold_def)

lemma constraints_hold_get_project_by_slug:
  "constraints_hold s \<Longrightarrow> constraints_hold (fst (get_project_by_slug s slug))"
proof (cases "first_row (filter (\<lambda>q. project_slug q = slug) (projects s))")
  case None
  assume "constraints_hold s"
  with None show ?thesis by (simp add: get_project_by_slug_def)
next
  case (Some x)
  assume c: "constraints_hold s"
  let ?rows = "map (\<lambda>q. if project_id q = project_id x
                          then q\<lparr>project_view_count := project_view_count x + 1\<rparr> else q)
                 (projects s)"
  have "fst (get_project_by_slug s slug) = s\<lparr>projects := ?rows\<rparr>"
    using Some by (simp add: get_project_by_slug_def Let_def)
  moreover have "constraints_hold (s\<lparr>projects := ?rows\<rparr>) = constraints_hold s"
    by (rule constraints_hold_projects_update) (rule map_key_update, simp)+
  ultimately show ?thesis using c by simp
qed

lemma constraints_hold_get_gallery_by_slug:
  "constraints_hold s \<Longrightarrow> constraints_hold (fst (get_gallery_by_slug s slug))"
proof (cases "first_row (filter (\<lambda>q. gallery_slug q = slug) (galleries s))")
  case None
  assume "constraints_hold s"
  with None show ?thesis by (simp add: get_gallery_by_slug_def)
next
  case (Some x)
  assume c: "constraints_hold s"
  let ?rows = "map (\<lambda>q. if gallery_id q = gallery_id x
                          then q\<lparr>gallery_view_count := gallery_view_count x + 1\<rparr> else q)
                 (galleries s)"
  have "fst (get_gallery_by_slug s slug) = s\<lparr>galleries := ?rows\<rparr>"
    using Some by (simp add: get_gallery_by_slug_def Let_def)
  moreover have "constraints_hold (s\<lparr>galleries := ?rows\<rparr>) = constraints_hold s"
    by (rule constraints_hold_galleries_update) (rule map_key_update, simp)+
  ultimately show ?thesis using c by simp
qed

lemma constraints_hold_get_3d_project_by_slug:
  "constraints_hold s \<Longrightarrow> constraints_hold (fst (get_3d_project_by_slug s slug))"
proof (cases "first_row (filter (\<lambda>q. three_d_slug q = slug) (three_d_projects s))")
  case None
  assume "constraints_hold s"
  with None show ?thesis by (simp add: get_3d_project_by_slug_def)
next
  case (Some x)
  assume c: "constraints_hold s"
  let ?rows = "map (\<lambda>q. if three_d_id q = three_d_id x
                          then q\<lparr>three_d_view_count := three_d_view_count x + 1\<rparr> else q)
                 (three_d_projects s)"
  have "fst (get_3d_project_by_slug s slug) = s\<lparr>three_d_projects := ?rows\<rparr>"
    using Some by (simp add: get_3d_project_by_slug_def Let_def)
  moreover have "constraints_hold (s\<lparr>three_d_projects := ?rows\<rparr>) = constraints_hold s"
    by (rule constraints_hold_three_d_update) (rule map_key_update, simp)+
  ultimately show ?thesis using c by simp
qed

lemma constraints_hold_create_contact_message:
  "constraints_hold s \<Longrightarrow>
   constraints_hold (fst (create_contact_message engine s now message_data ip_address user_agent))"
  by (simp add: constraints_hold_def create_contact_message_def Let_def fresh_id_new_image)

lemma first_row_None: "first_row xs = None \<longleftrightarrow> xs = []"
  by (cases xs) simp_all

lemma constraints_hold_create_sample_data:
  assumes "constraints_hold s"
  shows "constraints_hold (fst (create_sample_data clock s))"
proof (cases "users s")
  case (Cons u us)
  with assms show ?thesis by (simp add: create_sample_data_def)
next
  case Nil
  have cfg: "distinct (map config_id (site_config s @
                  [r\<lparr>config_id := Some (fresh_id (map config_id (site_config s)))\<rparr>]))" for r
    using assms by (simp add: constraints_hold_def fresh_id_new_image)
  have ids: "distinct (map project_id (add_rows project_id (\<lambda>i r. r\<lparr>project_id := Some i\<rparr>) (projects s) new_p))"
    "distinct (map gallery_id (add_rows gallery_id (\<lambda>i r. r\<lparr>gallery_id := Some i\<rparr>) (galleries s) new_g))"
    "distinct (map three_d_id (add_rows three_d_id (\<lambda>i r. r\<lparr>three_d_id := Some i\<rparr>) (three_d_projects s) new_t))"
    for new_p new_g new_t
    using assms by (simp_all add: add_rows_distinct_ids constraints_hold_def)
  have keys: "map project_slug (add_rows project_id (\<lambda>i r. r\<lparr>project_id := Some i\<rparr>) (projects s) new_p)
                = map project_slug (projects s) @ map project_slug new_p"
    "map gallery_slug (add_rows gallery_id (\<lambda>i r. r\<lparr>gallery_id := Some i\<rparr>) (galleries s) new_g)
                = map gallery_slug (galleries s) @ map gallery_slug new_g"
    "map three_d_slug (add_rows three_d_id (\<lambda>i r. r\<lparr>three_d_id := Some i\<rparr>) (three_d_projects s) new_t)
                = map three_d_slug (three_d_projects s) @ map three_d_slug new_t"
    for new_p new_g new_t
    by (simp_all add: add_rows_keys)
  have uniq: "unique_ok project_slug (projects s) new_p \<Longrightarrow>
                distinct (map project_slug (projects s) @ map project_slug new_p)"
    "unique_ok gallery_slug (galleries s) new_g \<Longrightarrow>
                distinct (map gallery_slug (galleries s) @ map gallery_slug new_g)"
    "unique_ok three_d_slug (three_d_projects s) new_t \<Longrightarrow>
                distinct (map three_d_slug (three_d_projects s) @ map three_d_slug new_t)"
    for new_p new_g new_t
    using assms by (simp_all only: unique_ok_distinct constraints_hold_def)
  show ?thesis
    using assms Nil
    by (simp add: create_sample_data_def Let_def constraints_hold_def cfg ids keys uniq
          del: distinct_append map_append)
qed

lemma constraints_hold_store_after:
  "constraints_hold s \<Longrightarrow> constraints_hold (store_after engine clock operation s)"
  by (cases operation)
    (simp_all add: constraints_hold_get_project_by_slug constraints_hold_get_gallery_by_slug
       constraints_hold_get_3d_project_by_slug constraints_hold_create_contact_message
       constraints_hold_create_sample_data)

lemma constraints_hold_fresh: "constraints_hold fresh_store"
  by (simp add: constraints_hold_def fresh_store_def)


section \<open>Claims\<close>

text \<open>
  C1. In a store that satisfies the schema's constraints, for every slug that a
  project carries, two calls of \<open>get_project_by_slug\<close> in a row (the second on the
  store the first one left) each return the record with that slug, and the
  \<open>view_count\<close> returned by the second call is the one returned by the first plus 1.
  The same holds for \<open>get_gallery_by_slug\<close> and \<open>get_3d_project_by_slug\<close>.
\<close>

theorem second_lookup_adds_one:
  assumes "constraints_hold s"
  shows "(slug \<in> set (map project_slug (projects s)) \<longrightarrow>
            (\<exists>s1 r1 s2 r2. get_project_by_slug s slug = (s1, Some r1) \<and>
               get_project_by_slug s1 slug = (s2, Some r2) \<and>
               project_slug r1 = slug \<and> project_slug r2 = slug \<and>
               project_view_count r2 = project_view_count r1 + 1)) \<and>
         (slug \<in> set (map gallery_slug (galleries s)) \<longrightarrow>
            (\<exists>s1 r1 s2 r2. get_gallery_by_slug s slug = (s1, Some r1) \<and>
               get_gallery_by_slug s1 slug = (s2, Some r2) \<and>
               gallery_slug r1 = slug \<and> gallery_slug r2 = slug \<and>
               gallery_view_count r2 = gallery_view_count r1 + 1)) \<and>
         (slug \<in> set (map three_d_slug (three_d_projects s)) \<longrightarrow>
            (\<exists>s1 r1 s2 r2. get_3d_project_by_slug s slug = (s1, Some r1) \<and>
               get_3d_project_by_slug s1 slug = (s2, Some r2) \<and>
               three_d_slug r1 = slug \<and> three_d_slug r2 = slug \<and>
               three_d_view_count r2 = three_d_view_count r1 + 1))"
proof (intro conjI impI)
  assume "slug \<in> set (map project_slug (projects s))"
  then obtain p where p: "p \<in> set (projects s)" and slug: "project_slug p = slug" by auto
  from assms have "distinct (map project_id (projects s))" "distinct (map project_slug (projects s))"
    by (simp_all add: constraints_hold_def)
  from get_project_by_slug_twice [OF this p] obtain s1 s2 where
    "get_project_by_slug s slug = (s1, Some (p\<lparr>project_view_count := project_view_count p + 1\<rparr>))"
    "get_project_by_slug s1 slug = (s2, Some (p\<lparr>project_view_count := project_view_count p + 2\<rparr>))"
    unfolding slug by blast
  then show "\<exists>s1 r1 s2 r2. get_project_by_slug s slug = (s1, Some r1) \<and>
               get_project_by_slug s1 slug = (s2, Some r2) \<and>
               project_slug r1 = slug \<and> project_slug r2 = slug \<and>
               project_view_count r2 = project_view_count r1 + 1"
    using slug by simp
next
  assume "slug \<in> set (map gallery_slug (galleries s))"
  then obtain g where g: "g \<in> set (galleries s)" and slug: "gallery_slug g = slug" by auto
  from assms have "distinct (map gallery_id (galleries s))" "distinct (map gallery_slug (galleries s))"
    by (simp_all add: constraints_hold_def)
  from get_gallery_by_slug_twice [OF this g] obtain s1 s2 where
    "get_gallery_by_slug s slug = (s1, Some (g\<lparr>gallery_view_count := gallery_view_count g + 1\<rparr>))"
    "get_gallery_by_slug s1 slug = (s2, Some (g\<lparr>gallery_view_count := gallery_view_count g + 2\<rparr>))"
    unfolding slug by blast
  then show "\<exists>s1 r1 s2 r2. get_gallery_by_slug s slug = (s1, Some r1) \<and>
               get_gallery_by_slug s1 slug = (s2, Some r2) \<and>
               gallery_slug r1 = slug \<and> gallery_slug r2 = slug \<and>
               gallery_view_count r2 = gallery_view_count r1 + 1"
    using slug by simp
next
  assume "slug \<in> set (map three_d_slug (three_d_projects s))"
  then obtain p where p: "p \<in> set (three_d_projects s)" and slug: "three_d_slug p = slug" by auto
  from assms have "distinct (map three_d_id (three_d_projects s))"
    "distinct (map three_d_slug (three_d_projects s))"
    by (simp_all add: constraints_hold_def)
  from get_3d_project_by_slug_twice [OF this p] obtain s1 s2 where
    "get_3d_project_by_slug s slug = (s1, Some (p\<lparr>three_d_view_count := three_d_view_count p + 1\<rparr>))"
    "get_3d_project_by_slug s1 slug = (s2, Some (p\<lparr>three_d_view_count := three_d_view_count p + 2\<rparr>))"
    unfolding slug by blast
  then show "\<exists>s1 r1 s2 r2. get_3d_project_by_slug s slug = (s1, Some r1) \<and>
               get_3d_project_by_slug s1 slug = (s2, Some r2) \<and>
               three_d_slug r1 = slug \<and> three_d_slug r2 = slug \<and>
               three_d_view_count r2 = three_d_view_count r1 + 1"
    using slug by simp
qed

theorem second_lookup_adds_one_witness:
  "constraints_hold seeded_store \<and>
   ''ecoshop-mobile-app'' \<in> set (map project_slug (projects seeded_store)) \<and>
   (\<exists>s1 r1 s2 r2. get_project_by_slug seeded_store ''ecoshop-mobile-app'' = (s1, Some r1) \<and>
      get_project_by_slug s1 ''ecoshop-mobile-app'' = (s2, Some r2) \<and>
      project_view_count r2 = project_view_count r1 + 1) \<and>
   ''urban-landscapes'' \<in> set (map gallery_slug (galleries seeded_store)) \<and>
   (\<exists>s1 r1 s2 r2. get_gallery_by_slug seeded_store ''urban-landscapes'' = (s1, Some r1) \<and>
      get_gallery_by_slug s1 ''urban-landscapes'' = (s2, Some r2) \<and>
      gallery_view_count r2 = gallery_view_count r1 + 1) \<and>
   ''modern-living-room'' \<in> set (map three_d_slug (three_d_projects seeded_store)) \<and>
   (\<exists>s1 r1 s2 r2. get_3d_project_by_slug seeded_store ''modern-living-room'' = (s1, Some r1) \<and>
      get_3d_project_by_slug s1 ''modern-living-room'' = (s2, Some r2) \<and>
      three_d_view_count r2 = three_d_view_count r1 + 1)"
proof -
  have a: "''ecoshop-mobile-app'' \<in> set (map project_slug (projects seeded_store))"
    and b: "''urban-landscapes'' \<in> set (map gallery_slug (galleries seeded_store))"
    and c: "''modern-living-room'' \<in> set (map three_d_slug (three_d_projects seeded_store))"
    by (simp_all add: seeded_slugs)
  from second_lookup_adds_one [OF constraints_hold_seeded, of "''ecoshop-mobile-app''"] a
  have "\<exists>s1 r1 s2 r2. get_project_by_slug seeded_store ''ecoshop-mobile-app'' = (s1, Some r1) \<and>
      get_project_by_slug s1 ''ecoshop-mobile-app'' = (s2, Some r2) \<and>
      project_view_count r2 = project_view_count r1 + 1"
    by blast
  moreover
  from second_lookup_adds_one [OF constraints_hold_seeded, of "''urban-landscapes''"] b
  have "\<exists>s1 r1 s2 r2. get_gallery_by_slug seeded_store ''urban-landscapes'' = (s1, Some r1) \<and>
      get_gallery_by_slug s1 ''urban-landscapes'' = (s2, Some r2) \<and>
      gallery_view_count r2 = gallery_view_count r1 + 1"
    by blast
  moreover
  from second_lookup_adds_one [OF constraints_hold_seeded, of "''modern-living-room''"] c
  have "\<exists>s1 r1 s2 r2. get_3d_project_by_slug seeded_store ''modern-living-room'' = (s1, Some r1) \<and>
      get_3d_project_by_slug s1 ''modern-living-room'' = (s2, Some r2) \<and>
      three_d_view_count r2 = three_d_view_count r1 + 1"
    by blast
  ultimately show ?thesis using a b c constraints_hold_seeded by blast
qed

text \<open>
  C2. \<open>create_sample_data\<close> returns at once, leaving the store as it is, whenever
  the \<open>users\<close> table has a row. On a fresh store it returns normally and leaves one
  owner, one site configuration, the two sample projects (published, featured,
  \<open>ui_ux\<close>), the two sample galleries (featured, public) and the two sample 3D
  projects (featured), and nothing else; running it a second time, under any clock,
  returns normally and leaves exactly that store.
\<close>

theorem seed_runs_once:
  "(users s \<noteq> [] \<longrightarrow> create_sample_data clock s = (s, Inr ())) \<and>
   (\<exists>once. create_sample_data clock fresh_store = (once, Inr ()) \<and>
      create_sample_data clock' once = (once, Inr ()) \<and>
      users once = [(sample_owner clock)\<lparr>user_id := Some 1\<rparr>] \<and>
      site_config once = [(sample_site_config clock)\<lparr>config_id := Some 1\<rparr>] \<and>
      projects once = [(sample_project_ecoshop clock 1)\<lparr>project_id := Some 1\<rparr>,
                       (sample_project_mindfulspace clock 1)\<lparr>project_id := Some 2\<rparr>] \<and>
      list_all (\<lambda>p. project_status p = PUBLISHED \<and> project_featured p \<and>
                     project_project_type p = UI_UX) (projects once) \<and>
      galleries once = [(sample_gallery_urban clock 1)\<lparr>gallery_id := Some 1\<rparr>,
                        (sample_gallery_portrait clock 1)\<lparr>gallery_id := Some 2\<rparr>] \<and>
      list_all (\<lambda>g. gallery_featured g \<and> gallery_is_public g) (galleries once) \<and>
      three_d_projects once = [(sample_three_d_living_room clock)\<lparr>three_d_id := Some 1\<rparr>,
                               (sample_three_d_abstract clock)\<lparr>three_d_id := Some 2\<rparr>] \<and>
      list_all three_d_featured (three_d_projects once) \<and>
      project_images once = [] \<and> project_sections once = [] \<and> photos once = [] \<and>
      three_d_renders once = [] \<and> contact_messages once = [])"
proof (intro conjI impI)
  assume "users s \<noteq> []"
  then show "create_sample_data clock s = (s, Inr ())"
    by (cases "users s") (simp_all add: create_sample_data_def)
next
  let ?once = "fst (create_sample_data clock fresh_store)"
  have first: "create_sample_data clock fresh_store = (?once, Inr ())"
    by (simp add: create_sample_data_fresh)
  have users: "users ?once = [(sample_owner clock)\<lparr>user_id := Some 1\<rparr>]"
    by (simp add: create_sample_data_fresh)
  then have again: "create_sample_data clock' ?once = (?once, Inr ())"
    by (simp add: create_sample_data_def)
  show "\<exists>once. create_sample_data clock fresh_store = (once, Inr ()) \<and>
      create_sample_data clock' once = (once, Inr ()) \<and>
      users once = [(sample_owner clock)\<lparr>user_id := Some 1\<rparr>] \<and>
      site_config once = [(sample_site_config clock)\<lparr>config_id := Some 1\<rparr>] \<and>
      projects once = [(sample_project_ecoshop clock 1)\<lparr>project_id := Some 1\<rparr>,
                       (sample_project_mindfulspace clock 1)\<lparr>project_id := Some 2\<rparr>] \<and>
      list_all (\<lambda>p. project_status p = PUBLISHED \<and> project_featured p \<and>
                     project_project_type p = UI_UX) (projects once) \<and>
      galleries once = [(sample_gallery_urban clock 1)\<lparr>gallery_id := Some 1\<rparr>,
                        (sample_gallery_portrait clock 1)\<lparr>gallery_id := Some 2\<rparr>] \<and>
      list_all (\<lambda>g. gallery_featured g \<and> gallery_is_public g) (galleries once) \<and>
      three_d_projects once = [(sample_three_d_living_room clock)\<lparr>three_d_id := Some 1\<rparr>,
                               (sample_three_d_abstract clock)\<lparr>three_d_id := Some 2\<rparr>] \<and>
      list_all three_d_featured (three_d_projects once) \<and>
      project_images once = [] \<and> project_sections once = [] \<and> photos once = [] \<and>
      three_d_renders once = [] \<and> contact_messages once = []"
    by (intro exI [of _ ?once] conjI first again users)
      (simp_all add: create_sample_data_fresh sample_project_fields sample_gallery_fields
         sample_three_d_fields)
qed

text \<open>
  The seeded store has an owner, so seeding it again (here under a later clock)
  changes nothing.
\<close>

theorem seed_runs_once_witness:
  "users seeded_store \<noteq> [] \<and>
   create_sample_data (\<lambda>k. 100 + int k) seeded_store = (seeded_store, Inr ()) \<and>
   create_sample_data ticking_clock fresh_store = (seeded_store, Inr ()) \<and>
   length (users seeded_store) = 1 \<and> length (site_config seeded_store) = 1 \<and>
   length (projects seeded_store) = 2 \<and> length (galleries seeded_store) = 2 \<and>
   length (three_d_projects seeded_store) = 2"
proof -
  have u: "users seeded_store \<noteq> []" by (simp add: seeded_tables)
  from seed_runs_once [of seeded_store "\<lambda>k. 100 + int k" ticking_clock] u
  have "create_sample_data (\<lambda>k. 100 + int k) seeded_store = (seeded_store, Inr ())"
    by blast
  moreover have "create_sample_data ticking_clock fresh_store = (seeded_store, Inr ())"
    by (simp add: seeded_store_def create_sample_data_fresh)
  ultimately show ?thesis using u by (simp add: seeded_tables)
qed

text \<open>
  C3 (as amended). For every store and every limit that is not negative,
  \<open>get_featured_projects\<close> returns a list of at most \<open>limit\<close> rows (as many as
  there are, up to \<open>limit\<close>). For every limit, a list it returns holds only projects
  of the store that are published and featured, ordered by \<open>sort_order\<close> descending
  with ties broken by \<open>created_at\<close> descending. For a negative limit a strict engine
  refuses the call, and a lenient engine returns every published and featured
  project, in that order.
\<close>

theorem featured_projects_listing:
  "(0 \<le> limit \<longrightarrow>
      (\<exists>rows. get_featured_projects engine s limit = Inr rows \<and> int (length rows) \<le> limit \<and>
         length rows = min (nat limit)
           (length (filter (\<lambda>p. project_status p = PUBLISHED \<and> project_featured p) (projects s))))) \<and>
   (\<forall>rows. get_featured_projects engine s limit = Inr rows \<longrightarrow>
      (\<forall>p\<in>set rows. p \<in> set (projects s) \<and> project_status p = PUBLISHED \<and> project_featured p) \<and>
      sorted_wrt project_desc rows) \<and>
   (limit < 0 \<longrightarrow>
      get_featured_projects Strict s limit = Inl DataError \<and>
      get_featured_projects Lenient s limit =
        Inr (order_by project_desc
               (filter (\<lambda>p. project_status p = PUBLISHED \<and> project_featured p) (projects s))))"
proof (intro conjI impI allI)
  assume "0 \<le> limit"
  then show "\<exists>rows. get_featured_projects engine s limit = Inr rows \<and> int (length rows) \<le> limit \<and>
         length rows = min (nat limit)
           (length (filter (\<lambda>p. project_status p = PUBLISHED \<and> project_featured p) (projects s)))"
    by (simp add: get_featured_projects_def limit_rows_nonneg length_order_by min.commute)
next
  fix rows assume r: "get_featured_projects engine s limit = Inr rows"
  then have "set rows \<subseteq> set (order_by project_desc
      (filter (\<lambda>p. project_status p = PUBLISHED \<and> project_featured p) (projects s)))"
    unfolding get_featured_projects_def by (rule limit_rows_subset)
  then show "\<forall>p\<in>set rows. p \<in> set (projects s) \<and> project_status p = PUBLISHED \<and> project_featured p"
    by (auto simp: set_order_by)
next
  fix rows assume r: "get_featured_projects engine s limit = Inr rows"
  then show "sorted_wrt project_desc rows"
    unfolding get_featured_projects_def
    by (rule limit_rows_sorted) (rule sorted_project_desc)
next
  assume "limit < 0"
  then show "get_featured_projects Strict s limit = Inl DataError"
    by (simp add: get_featured_projects_def limit_rows_def)
next
  assume "limit < 0"
  then show "get_featured_projects Lenient s limit =
        Inr (order_by project_desc
               (filter (\<lambda>p. project_status p = PUBLISHED \<and> project_featured p) (projects s)))"
    by (simp add: get_featured_projects_def limit_rows_def)
qed

text \<open>
  On the seeded store with the default limit 6 the call returns both sample projects,
  the one with \<open>sort_order\<close> 2 first; with limit -1 a strict engine refuses and a
  lenient one returns both.
\<close>

theorem featured_projects_listing_witness:
  "(0::int) \<le> 6 \<and>
   get_featured_projects Strict seeded_store 6 = Inr (rev (projects seeded_store)) \<and>
   int (length (rev (projects seeded_store))) \<le> 6 \<and>
   list_all (\<lambda>p. project_status p = PUBLISHED \<and> project_featured p)
     (rev (projects seeded_store)) \<and>
   sorted_wrt project_desc (rev (projects seeded_store)) \<and>
   (- 1::int) < 0 \<and>
   get_featured_projects Strict seeded_store (- 1) = Inl DataError \<and>
   get_featured_projects Lenient seeded_store (- 1) = Inr (rev (projects seeded_store))"
proof -
  have run: "get_featured_projects Strict seeded_store 6 = Inr (rev (projects seeded_store))"
    by (simp add: get_featured_projects_def limit_rows_def seeded_featured_projects)
      (simp add: seeded_tables)
  from featured_projects_listing [of 6 Strict seeded_store] run
  have "int (length (rev (projects seeded_store))) \<le> 6 \<and>
        list_all (\<lambda>p. project_status p = PUBLISHED \<and> project_featured p)
          (rev (projects seeded_store)) \<and>
        sorted_wrt project_desc (rev (projects seeded_store))"
    by (simp add: seeded_tables sample_project_fields)
  moreover from featured_projects_listing [of "- 1" Strict seeded_store]
  have "get_featured_projects Strict seeded_store (- 1) = Inl DataError \<and>
        get_featured_projects Lenient seeded_store (- 1) = Inr (rev (projects seeded_store))"
    by (simp add: seeded_featured_projects)
  ultimately show ?thesis using run by simp
qed

text \<open>
  C3 as stated fails at a negative limit: on the seeded store with \<open>limit = -1\<close> an
  engine that refuses the statement returns nothing, and an engine that reads it as
  no limit returns two rows, more than \<open>limit\<close>.
\<close>

theorem featured_projects_negative_limit_counterexample:
  "get_featured_projects Strict seeded_store (- 1) = Inl DataError \<and>
   (\<exists>rows. get_featured_projects Lenient seeded_store (- 1) = Inr rows \<and>
            length rows = 2 \<and> \<not> int (length rows) \<le> - 1)"
  by (simp add: get_featured_projects_def limit_rows_def seeded_featured_projects)
    (simp add: seeded_tables)

text \<open>
  C4. For every slug that no row of the table carries, \<open>get_project_by_slug\<close> returns
  \<open>None\<close> (it does not raise) and the store it leaves is the store it found: no write
  is performed. The same holds for \<open>get_gallery_by_slug\<close> and
  \<open>get_3d_project_by_slug\<close>.
\<close>

theorem lookup_miss_no_write:
  "(slug \<notin> set (map project_slug (projects s)) \<longrightarrow> get_project_by_slug s slug = (s, None)) \<and>
   (slug \<notin> set (map gallery_slug (galleries s)) \<longrightarrow> get_gallery_by_slug s slug = (s, None)) \<and>
   (slug \<notin> set (map three_d_slug (three_d_projects s))
      \<longrightarrow> get_3d_project_by_slug s slug = (s, None))"
  by (simp add: get_project_by_slug_miss get_gallery_by_slug_miss get_3d_project_by_slug_miss)

theorem lookup_miss_no_write_witness:
  "''nonexistent-project'' \<notin> set (map project_slug (projects seeded_store)) \<and>
   get_project_by_slug seeded_store ''nonexistent-project'' = (seeded_store, None) \<and>
   ''nonexistent-gallery'' \<notin> set (map gallery_slug (galleries seeded_store)) \<and>
   get_gallery_by_slug seeded_store ''nonexistent-gallery'' = (seeded_store, None) \<and>
   ''nonexistent-3d-project'' \<notin> set (map three_d_slug (three_d_projects seeded_store)) \<and>
   get_3d_project_by_slug seeded_store ''nonexistent-3d-project'' = (seeded_store, None)"
  using lookup_miss_no_write [of "''nonexistent-project''" seeded_store]
    lookup_miss_no_write [of "''nonexistent-gallery''" seeded_store]
    lookup_miss_no_write [of "''nonexistent-3d-project''" seeded_store]
  by (simp add: seeded_slugs)

text \<open>
  C5. \<open>get_project_by_slug\<close> matches on the slug alone. In a store that satisfies the
  schema's constraints, for every project \<open>p\<close> of the store, whatever its status,
  looking up its slug returns \<open>p\<close> with \<open>view_count\<close> raised by 1. The status is
  filtered by the listings only: every row \<open>get_featured_projects\<close> or
  \<open>get_projects_by_type\<close> returns is published.
\<close>

theorem lookup_ignores_status:
  assumes "constraints_hold s" and "p \<in> set (projects s)"
  shows "(\<exists>s'. get_project_by_slug s (project_slug p)
                  = (s', Some (p\<lparr>project_view_count := project_view_count p + 1\<rparr>))) \<and>
         (\<forall>rows. get_featured_projects engine s limit = Inr rows \<longrightarrow>
            (\<forall>r\<in>set rows. project_status r = PUBLISHED)) \<and>
         (\<forall>rows. get_projects_by_type engine s project_type limit' = Inr rows \<longrightarrow>
            (\<forall>r\<in>set rows. project_status r = PUBLISHED))"
proof (intro conjI allI impI)
  from assms(1) have "distinct (map project_id (projects s))"
    "distinct (map project_slug (projects s))"
    by (simp_all add: constraints_hold_def)
  from get_project_by_slug_hit [OF this assms(2)]
  show "\<exists>s'. get_project_by_slug s (project_slug p)
                  = (s', Some (p\<lparr>project_view_count := project_view_count p + 1\<rparr>))"
    by blast
next
  fix rows assume "get_featured_projects engine s limit = Inr rows"
  then have "set rows \<subseteq> set (order_by project_desc
      (filter (\<lambda>p. project_status p = PUBLISHED \<and> project_featured p) (projects s)))"
    unfolding get_featured_projects_def by (rule limit_rows_subset)
  then show "\<forall>r\<in>set rows. project_status r = PUBLISHED"
    by (auto simp: set_order_by)
next
  fix rows assume r: "get_projects_by_type engine s project_type limit' = Inr rows"
  let ?query = "order_by project_desc
      (filter (\<lambda>p. project_status p = PUBLISHED \<and> project_project_type p = project_type)
         (projects s))"
  from r have "rows = ?query \<or> (\<exists>n. limit_rows engine n ?query = Inr rows)"
    by (auto simp: get_projects_by_type_def Let_def split: option.splits if_splits)
  then have "set rows \<subseteq> set ?query"
    by (auto dest: limit_rows_subset)
  then show "\<forall>r\<in>set rows. project_status r = PUBLISHED"
    by (auto simp: set_order_by)
qed

text \<open>
  In the store \<open>unlisted_store\<close> the draft and the archived project are both found
  by their slugs, and the featured listing is empty.
\<close>

theorem lookup_ignores_status_witness:
  "constraints_hold unlisted_store \<and>
   draft_project \<in> set (projects unlisted_store) \<and> project_status draft_project = DRAFT \<and>
   (\<exists>s'. get_project_by_slug unlisted_store ''ecoshop-mobile-app''
            = (s', Some (draft_project\<lparr>project_view_count := project_view_count draft_project + 1\<rparr>))) \<and>
   archived_project \<in> set (projects unlisted_store) \<and>
   project_status archived_project = ARCHIVED \<and>
   (\<exists>s'. get_project_by_slug unlisted_store ''mindfulspace-dashboard''
            = (s', Some (archived_project\<lparr>project_view_count :=
                           project_view_count archived_project + 1\<rparr>))) \<and>
   get_featured_projects Strict unlisted_store 6 = Inr []"
proof -
  have d: "draft_project \<in> set (projects unlisted_store)"
    and a: "archived_project \<in> set (projects unlisted_store)"
    by (simp_all add: unlisted_tables)
  have none: "get_featured_projects Strict unlisted_store 6 = Inr []"
    by (simp add: get_featured_projects_def limit_rows_def unlisted_tables unlisted_fields)
  from lookup_ignores_status [OF constraints_hold_unlisted d]
    lookup_ignores_status [OF constraints_hold_unlisted a]
  show ?thesis using d a none constraints_hold_unlisted
    by (simp add: unlisted_fields)
qed

text \<open>
  C6. Visibility is enforced when listing, not when looking up. In a store that
  satisfies the schema's constraints, for every gallery \<open>g\<close> with \<open>is_public\<close> false,
  \<open>get_gallery_by_slug\<close> on its slug returns \<open>g\<close> with \<open>view_count\<close> raised by 1
  and writes that row to the store in the place of \<open>g\<close>, leaving every other row
  and table as it was; while every row \<open>get_featured_galleries\<close> returns is public
  and featured (so \<open>g\<close> is not among them).
\<close>

theorem gallery_lookup_ignores_visibility:
  assumes "constraints_hold s" and "g \<in> set (galleries s)" and "\<not> gallery_is_public g"
  shows "get_gallery_by_slug s (gallery_slug g) =
           (s\<lparr>galleries := map (\<lambda>q. if q = g
                                      then q\<lparr>gallery_view_count := gallery_view_count g + 1\<rparr>
                                      else q) (galleries s)\<rparr>,
            Some (g\<lparr>gallery_view_count := gallery_view_count g + 1\<rparr>)) \<and>
         (\<forall>rows. get_featured_galleries engine s limit = Inr rows \<longrightarrow>
            g \<notin> set rows \<and> (\<forall>r\<in>set rows. gallery_is_public r \<and> gallery_featured r))"
proof (intro conjI allI impI)
  from assms(1) have "distinct (map gallery_id (galleries s))"
    "distinct (map gallery_slug (galleries s))"
    by (simp_all add: constraints_hold_def)
  from this assms(2)
  show "get_gallery_by_slug s (gallery_slug g) =
           (s\<lparr>galleries := map (\<lambda>q. if q = g
                                      then q\<lparr>gallery_view_count := gallery_view_count g + 1\<rparr>
                                      else q) (galleries s)\<rparr>,
            Some (g\<lparr>gallery_view_count := gallery_view_count g + 1\<rparr>))"
    by (rule get_gallery_by_slug_hit)
next
  fix rows assume "get_featured_galleries engine s limit = Inr rows"
  then have sub: "set rows \<subseteq> set (order_by gallery_desc
      (filter (\<lambda>g. gallery_is_public g \<and> gallery_featured g) (galleries s)))"
    unfolding get_featured_galleries_def by (rule limit_rows_subset)
  then show "\<forall>r\<in>set rows. gallery_is_public r \<and> gallery_featured r"
    by (auto simp: set_order_by)
  with assms(3) show "g \<notin> set rows" by blast
qed

text \<open>
  In the store \<open>unlisted_store\<close> the private gallery is found by its slug and
  written back with \<open>view_count\<close> 1, and the featured listing is empty.
\<close>

theorem gallery_lookup_ignores_visibility_witness:
  "constraints_hold unlisted_store \<and> private_gallery \<in> set (galleries unlisted_store) \<and>
   \<not> gallery_is_public private_gallery \<and>
   get_gallery_by_slug unlisted_store ''urban-landscapes''
     = (unlisted_store\<lparr>galleries := [private_gallery\<lparr>gallery_view_count := 1\<rparr>]\<rparr>,
        Some (private_gallery\<lparr>gallery_view_count := 1\<rparr>)) \<and>
   get_featured_galleries Strict unlisted_store 6 = Inr []"
proof -
  have g: "private_gallery \<in> set (galleries unlisted_store)"
    by (simp add: unlisted_tables)
  have p: "\<not> gallery_is_public private_gallery"
    by (simp add: unlisted_fields)
  have slug: "gallery_slug private_gallery = ''urban-landscapes''"
    by (simp add: unlisted_fields)
  have count: "gallery_view_count private_gallery + 1 = 1"
    by (simp add: private_gallery_def sample_gallery_fields)
  have none: "get_featured_galleries Strict unlisted_store 6 = Inr []"
    by (simp add: get_featured_galleries_def limit_rows_def unlisted_tables unlisted_fields)
  from gallery_lookup_ignores_visibility [OF constraints_hold_unlisted g p]
  have "get_gallery_by_slug unlisted_store (gallery_slug private_gallery) =
          (unlisted_store\<lparr>galleries :=
              map (\<lambda>q. if q = private_gallery
                       then q\<lparr>gallery_view_count := gallery_view_count private_gallery + 1\<rparr>
                       else q) (galleries unlisted_store)\<rparr>,
           Some (private_gallery\<lparr>gallery_view_count :=
                   gallery_view_count private_gallery + 1\<rparr>))"
    by (rule conjunct1)
  then have run: "get_gallery_by_slug unlisted_store ''urban-landscapes''
     = (unlisted_store\<lparr>galleries := [private_gallery\<lparr>gallery_view_count := 1\<rparr>]\<rparr>,
        Some (private_gallery\<lparr>gallery_view_count := 1\<rparr>))"
    unfolding slug count unlisted_tables by simp
  from constraints_hold_unlisted g p run none show ?thesis
    by (intro conjI)
qed

text \<open>
  C7 (as amended). Every contact input within the length bounds of
  \<open>ContactMessageCreate\<close> (name 100, email 255, subject 200, message 2000) is
  accepted. With an \<open>ip_address\<close> of at most 45 and a \<open>user_agent\<close> of at most 500
  characters, the widths of their columns (or with any two strings on a lenient
  engine), \<open>create_contact_message\<close> returns a message with status \<open>new\<close>,
  \<open>created_at\<close> the time of the call, the six supplied strings verbatim, no
  \<open>replied_at\<close>, and an identifier assigned by the store that no earlier message
  has; the message is appended to the \<open>contact_messages\<close> table and nothing else in
  the store changes. On a strict engine with a longer \<open>ip_address\<close> or
  \<open>user_agent\<close> the call raises, returns no message and leaves the store as it was.
\<close>

theorem create_contact_message_stores_input:
  assumes "length name \<le> 100" and "length email \<le> 255"
    and "length subject \<le> 200" and "length message \<le> 2000"
  shows "\<exists>message_data.
           ContactMessageCreate_init name email subject message = Inr message_data \<and>
           (length ip_address \<le> 45 \<and> length user_agent \<le> 500 \<or> engine = Lenient \<longrightarrow>
              (\<exists>s' m i.
                 create_contact_message engine s now message_data ip_address user_agent
                   = (s', Inr m) \<and>
                 m = \<lparr>message_id = Some i, message_name = name, message_email = email,
                       message_subject = subject, message_message = message,
                       message_status = NEW, message_ip_address = ip_address,
                       message_user_agent = user_agent, message_replied_at = None,
                       message_created_at = now\<rparr> \<and>
                 Some i \<notin> set (map message_id (contact_messages s)) \<and>
                 s' = s\<lparr>contact_messages := contact_messages s @ [m]\<rparr>)) \<and>
           (engine = Strict \<and> (45 < length ip_address \<or> 500 < length user_agent) \<longrightarrow>
              create_contact_message engine s now message_data ip_address user_agent
                = (s, Inl DataError))"
proof -
  let ?data = "\<lparr>data_name = name, data_email = email,
                 data_subject = subject, data_message = message\<rparr>"
  have init: "ContactMessageCreate_init name email subject message = Inr ?data"
    using assms by (simp add: ContactMessageCreate_init_def)
  have stored: "\<exists>s' m i.
      create_contact_message engine s now ?data ip_address user_agent = (s', Inr m) \<and>
      m = \<lparr>message_id = Some i, message_name = name, message_email = email,
            message_subject = subject, message_message = message,
            message_status = NEW, message_ip_address = ip_address,
            message_user_agent = user_agent, message_replied_at = None,
            message_created_at = now\<rparr> \<and>
      Some i \<notin> set (map message_id (contact_messages s)) \<and>
      s' = s\<lparr>contact_messages := contact_messages s @ [m]\<rparr>"
    if "length ip_address \<le> 45 \<and> length user_agent \<le> 500 \<or> engine = Lenient"
  proof -
    from that assms have "width_ok engine (message_fits
        \<lparr>message_id = None, message_name = name, message_email = email,
          message_subject = subject, message_message = message, message_status = NEW,
          message_ip_address = ip_address, message_user_agent = user_agent,
          message_replied_at = None, message_created_at = now\<rparr>)"
      by (cases engine) (auto simp: width_ok_def message_fits_def)
    then show ?thesis
      by (simp add: create_contact_message_def Let_def fresh_id_new_image)
  qed
  have refused: "create_contact_message engine s now ?data ip_address user_agent
                   = (s, Inl DataError)"
    if "engine = Strict \<and> (45 < length ip_address \<or> 500 < length user_agent)"
    using that by (auto simp: create_contact_message_def Let_def width_ok_def message_fits_def)
  from init stored refused show ?thesis by blast
qed

text \<open>
  The call of \<open>test_create_contact_message\<close>, on a fresh store at time 7 on a strict
  engine; and the same call with an \<open>ip_address\<close> of 46 characters, which is refused.
\<close>

theorem create_contact_message_stores_input_witness:
  "length ''John Doe'' \<le> 100 \<and> length ''john@example.com'' \<le> 255 \<and>
   length ''Project Inquiry'' \<le> 200 \<and>
   length ''I would like to discuss a potential project.'' \<le> 2000 \<and>
   length ''192.168.1.1'' \<le> 45 \<and> length ''Test Browser'' \<le> 500 \<and>
   45 < length long_ip_address \<and>
   (\<exists>message_data s' m.
      ContactMessageCreate_init ''John Doe'' ''john@example.com'' ''Project Inquiry''
        ''I would like to discuss a potential project.'' = Inr message_data \<and>
      create_contact_message Strict fresh_store 7 message_data ''192.168.1.1'' ''Test Browser''
        = (s', Inr m) \<and>
      message_id m \<noteq> None \<and> message_name m = ''John Doe'' \<and>
      message_email m = ''john@example.com'' \<and> message_subject m = ''Project Inquiry'' \<and>
      message_status m = NEW \<and> message_ip_address m = ''192.168.1.1'' \<and>
      message_user_agent m = ''Test Browser'' \<and> message_created_at m = 7 \<and>
      contact_messages s' = [m] \<and>
      create_contact_message Strict fresh_store 7 message_data long_ip_address ''Test Browser''
        = (fresh_store, Inl DataError))"
proof -
  have bounds: "length ''John Doe'' \<le> 100" "length ''john@example.com'' \<le> 255"
    "length ''Project Inquiry'' \<le> 200"
    "length ''I would like to discuss a potential project.'' \<le> 2000"
    by simp_all
  have short: "length ''192.168.1.1'' \<le> 45 \<and> length ''Test Browser'' \<le> 500"
    and long: "45 < length long_ip_address"
    by (simp_all add: long_ip_address_def)
  from create_contact_message_stores_input [OF bounds, of "''192.168.1.1''" "''Test Browser''"
      Strict fresh_store 7] short
  obtain message_data s' m i where
    init: "ContactMessageCreate_init ''John Doe'' ''john@example.com'' ''Project Inquiry''
        ''I would like to discuss a potential project.'' = Inr message_data"
    and run: "create_contact_message Strict fresh_store 7 message_data ''192.168.1.1''
        ''Test Browser'' = (s', Inr m)"
    and m: "m = \<lparr>message_id = Some i, message_name = ''John Doe'',
          message_email = ''john@example.com'', message_subject = ''Project Inquiry'',
          message_message = ''I would like to discuss a potential project.'',
          message_status = NEW, message_ip_address = ''192.168.1.1'',
          message_user_agent = ''Test Browser'', message_replied_at = None,
          message_created_at = 7\<rparr>"
    and s': "s' = fresh_store\<lparr>contact_messages := contact_messages fresh_store @ [m]\<rparr>"
    by blast
  from create_contact_message_stores_input [OF bounds, of long_ip_address "''Test Browser''"
      Strict fresh_store 7] long init
  have refused: "create_contact_message Strict fresh_store 7 message_data long_ip_address
        ''Test Browser'' = (fresh_store, Inl DataError)"
    by auto
  have fields: "message_id m \<noteq> None \<and> message_name m = ''John Doe'' \<and>
      message_email m = ''john@example.com'' \<and> message_subject m = ''Project Inquiry'' \<and>
      message_status m = NEW \<and> message_ip_address m = ''192.168.1.1'' \<and>
      message_user_agent m = ''Test Browser'' \<and> message_created_at m = 7"
    unfolding m by simp
  have table: "contact_messages s' = [m]"
    unfolding s' by (simp add: fresh_store_def)
  from init run fields table refused have "\<exists>message_data s' m.
      ContactMessageCreate_init ''John Doe'' ''john@example.com'' ''Project Inquiry''
        ''I would like to discuss a potential project.'' = Inr message_data \<and>
      create_contact_message Strict fresh_store 7 message_data ''192.168.1.1'' ''Test Browser''
        = (s', Inr m) \<and>
      message_id m \<noteq> None \<and> message_name m = ''John Doe'' \<and>
      message_email m = ''john@example.com'' \<and> message_subject m = ''Project Inquiry'' \<and>
      message_status m = NEW \<and> message_ip_address m = ''192.168.1.1'' \<and>
      message_user_agent m = ''Test Browser'' \<and> message_created_at m = 7 \<and>
      contact_messages s' = [m] \<and>
      create_contact_message Strict fresh_store 7 message_data long_ip_address ''Test Browser''
        = (fresh_store, Inl DataError)"
    by blast
  with bounds short long show ?thesis by blast
qed

text \<open>
  C7 as stated, for any \<open>ip_address\<close>, fails on a strict engine: the input of
  \<open>test_create_contact_message\<close> is valid, and with an \<open>ip_address\<close> of 46
  characters the call raises and the fresh store stays empty.
\<close>

theorem create_contact_message_long_ip_counterexample:
  "ContactMessageCreate_init ''John Doe'' ''john@example.com'' ''Project Inquiry''
     ''I would like to discuss a potential project.'' = Inr john_doe \<and>
   length long_ip_address = 46 \<and>
   create_contact_message Strict fresh_store 7 john_doe long_ip_address ''Test Browser''
     = (fresh_store, Inl DataError) \<and>
   contact_messages fresh_store = []"
  by (simp add: ContactMessageCreate_init_def john_doe_def long_ip_address_def
        create_contact_message_def Let_def width_ok_def message_fits_def fresh_store_def)

text \<open>
  C8 (as amended). For every store and every limit that is not negative,
  \<open>get_recent_messages\<close> returns the first \<open>limit\<close> rows (all of them when there
  are fewer) of an arrangement of the \<open>contact_messages\<close> table by \<open>created_at\<close>
  descending. For a negative limit a strict engine refuses the call, and a lenient
  engine returns the whole table in that arrangement. In particular, when three
  messages are created one after the other at strictly increasing times
  \<open>t0 < t1 < t2\<close>, in a store whose earlier messages are older than \<open>t1\<close>, then
  \<open>get_recent_messages\<close> with limit 2 returns exactly the third message followed
  by the second.
\<close>

theorem recent_messages_listing:
  "(0 \<le> limit \<longrightarrow>
      (\<exists>rows rest. get_recent_messages engine s limit = Inr rows \<and>
         int (length rows) \<le> limit \<and>
         length rows = min (nat limit) (length (contact_messages s)) \<and>
         mset (rows @ rest) = mset (contact_messages s) \<and>
         sorted_wrt message_desc (rows @ rest))) \<and>
   (limit < 0 \<longrightarrow>
      get_recent_messages Strict s limit = Inl DataError \<and>
      (\<exists>rows. get_recent_messages Lenient s limit = Inr rows \<and>
         mset rows = mset (contact_messages s) \<and> sorted_wrt message_desc rows)) \<and>
   ((\<forall>m\<in>set (contact_messages s). message_created_at m < t1) \<and> t0 < t1 \<and> t1 < t2 \<and>
    create_contact_message engine s t0 d0 ip0 ua0 = (s0, Inr m0) \<and>
    create_contact_message engine s0 t1 d1 ip1 ua1 = (s1, Inr m1) \<and>
    create_contact_message engine s1 t2 d2 ip2 ua2 = (s2, Inr m2) \<longrightarrow>
    get_recent_messages engine s2 2 = Inr [m2, m1])"
proof (intro conjI impI)
  assume "0 \<le> limit"
  let ?all = "order_by message_desc (contact_messages s)"
  have "get_recent_messages engine s limit = Inr (take (nat limit) ?all)"
    using \<open>0 \<le> limit\<close> by (simp add: get_recent_messages_def limit_rows_nonneg)
  moreover have "int (length (take (nat limit) ?all)) \<le> limit"
    using \<open>0 \<le> limit\<close> by simp
  moreover have "length (take (nat limit) ?all) = min (nat limit) (length (contact_messages s))"
    by (simp add: length_order_by min.commute)
  moreover have "mset (take (nat limit) ?all @ drop (nat limit) ?all) = mset (contact_messages s)"
    by (simp add: mset_order_by)
  moreover have "sorted_wrt message_desc (take (nat limit) ?all @ drop (nat limit) ?all)"
    by (simp add: sorted_message_desc)
  ultimately show "\<exists>rows rest. get_recent_messages engine s limit = Inr rows \<and>
         int (length rows) \<le> limit \<and>
         length rows = min (nat limit) (length (contact_messages s)) \<and>
         mset (rows @ rest) = mset (contact_messages s) \<and>
         sorted_wrt message_desc (rows @ rest)"
    by blast
next
  assume "limit < 0"
  then show "get_recent_messages Strict s limit = Inl DataError"
    by (simp add: get_recent_messages_def limit_rows_def)
next
  assume "limit < 0"
  then have "get_recent_messages Lenient s limit
               = Inr (order_by message_desc (contact_messages s))"
    by (simp add: get_recent_messages_def limit_rows_def)
  then show "\<exists>rows. get_recent_messages Lenient s limit = Inr rows \<and>
         mset rows = mset (contact_messages s) \<and> sorted_wrt message_desc rows"
    by (simp add: mset_order_by sorted_message_desc)
next
  assume h: "(\<forall>m\<in>set (contact_messages s). message_created_at m < t1) \<and> t0 < t1 \<and> t1 < t2 \<and>
    create_contact_message engine s t0 d0 ip0 ua0 = (s0, Inr m0) \<and>
    create_contact_message engine s0 t1 d1 ip1 ua1 = (s1, Inr m1) \<and>
    create_contact_message engine s1 t2 d2 ip2 ua2 = (s2, Inr m2)"
  then have c0: "contact_messages s0 = contact_messages s @ [m0]" "message_created_at m0 = t0"
    and c1: "contact_messages s1 = contact_messages s0 @ [m1]" "message_created_at m1 = t1"
    and c2: "contact_messages s2 = contact_messages s1 @ [m2]" "message_created_at m2 = t2"
    by (auto dest: contact_messages_after_create)
  have all: "contact_messages s2 = contact_messages s @ [m0, m1, m2]"
    by (simp add: c0 c1 c2)
  have "take 2 (order_by message_desc (contact_messages s @ [m0, m1, m2])) = [m2, m1]"
    using h by (intro newest_two_first) (simp_all add: c0 c1 c2)
  then show "get_recent_messages engine s2 2 = Inr [m2, m1]"
    by (simp add: get_recent_messages_def limit_rows_def all)
qed

text \<open>
  The run of \<open>test_get_recent_messages\<close>: "User 0", "User 1", "User 2" created in
  a fresh store at the times 0, 1, 2; limit 2 returns "User 2", then "User 1", and
  limit -1 is refused by a strict engine.
\<close>

theorem recent_messages_listing_witness:
  "(0::int) \<le> 2 \<and> (0::int) < 1 \<and> (1::int) < 2 \<and> (- 1::int) < 0 \<and>
   (\<exists>rows. get_recent_messages Strict three_messages_store 2 = Inr rows \<and>
            map message_name rows = [''User 2'', ''User 1'']) \<and>
   get_recent_messages Strict three_messages_store (- 1) = Inl DataError"
proof -
  obtain s0 m0 where r0: "create_contact_message Strict fresh_store 0 user_0 '''' '''' = (s0, Inr m0)"
    by (simp add: create_test_message)
  obtain s1 m1 where r1: "create_contact_message Strict s0 1 user_1 '''' '''' = (s1, Inr m1)"
    by (simp add: create_test_message)
  obtain s2 m2 where r2: "create_contact_message Strict s1 2 user_2 '''' '''' = (s2, Inr m2)"
    by (simp add: create_test_message)
  have store: "three_messages_store = s2"
    using r0 r1 r2 by (simp add: three_messages_store_def)
  have names: "message_name m1 = ''User 1''" "message_name m2 = ''User 2''"
    using r1 r2 by (auto simp: create_test_message)
  have "get_recent_messages Strict s2 2 = Inr [m2, m1]"
    using recent_messages_listing [of 2 Strict fresh_store 1 0 2 user_0 "''''" "''''"
        s0 m0 user_1 "''''" "''''" s1 m1 user_2 "''''" "''''" s2 m2] r0 r1 r2
    by (simp add: fresh_store_def)
  moreover have "get_recent_messages Strict three_messages_store (- 1) = Inl DataError"
    using recent_messages_listing [of "- 1" Strict three_messages_store] by simp
  ultimately show ?thesis by (simp add: store names)
qed

text \<open>
  C8 as stated fails in three ways. At a negative limit: with \<open>limit = -1\<close> on the
  store of the three messages, a strict engine returns nothing, and a lenient one
  returns all three rows, more than \<open>limit\<close>. Under a clock that does not advance:
  the three messages all carry the time 0, and limit 2 returns "User 0", then
  "User 1". In a store that holds a later message: limit 2 returns that message,
  then "User 2".
\<close>

theorem recent_messages_counterexample:
  "get_recent_messages Strict three_messages_store (- 1) = Inl DataError \<and>
   (\<exists>rows. get_recent_messages Lenient three_messages_store (- 1) = Inr rows \<and>
            length rows = 3 \<and> \<not> int (length rows) \<le> - 1) \<and>
   (\<exists>rows. get_recent_messages Strict frozen_clock_store 2 = Inr rows \<and>
            map message_name rows = [''User 0'', ''User 1'']) \<and>
   (\<exists>rows. get_recent_messages Strict later_message_store 2 = Inr rows \<and>
            map message_name rows = [''Earlier'', ''User 2''])"
proof (intro conjI)
  show "get_recent_messages Strict three_messages_store (- 1) = Inl DataError"
    by (simp add: get_recent_messages_def limit_rows_def)
  have "length (map message_name (contact_messages three_messages_store)) = 3"
    by (simp only: three_messages_table) simp
  then show "\<exists>rows. get_recent_messages Lenient three_messages_store (- 1) = Inr rows \<and>
            length rows = 3 \<and> \<not> int (length rows) \<le> - 1"
    by (simp add: get_recent_messages_def limit_rows_def length_order_by)
  show "\<exists>rows. get_recent_messages Strict frozen_clock_store 2 = Inr rows \<and>
            map message_name rows = [''User 0'', ''User 1'']"
    by (simp add: get_recent_messages_def limit_rows_def frozen_clock_store_def
          create_test_message fresh_store_def message_desc_def)
  show "\<exists>rows. get_recent_messages Strict later_message_store 2 = Inr rows \<and>
            map message_name rows = [''Earlier'', ''User 2'']"
    by (simp add: get_recent_messages_def limit_rows_def later_message_store_def
          create_test_message fresh_store_def message_desc_def later_message_def)
qed

text \<open>
  C9. Raising \<open>view_count\<close> is the only write a read performs. In a store that
  satisfies the schema's constraints, whenever \<open>get_project_by_slug\<close> returns a
  record \<open>r\<close>, there is a project \<open>p\<close> of the store with that slug such that \<open>r\<close> is
  \<open>p\<close> with \<open>view_count\<close> raised by 1 and every other field as it was, and the store
  left behind is the store found with \<open>p\<close> replaced by \<open>r\<close>: every other row and
  every other table is unchanged. The same holds for \<open>get_gallery_by_slug\<close> and
  \<open>get_3d_project_by_slug\<close>. Under every operation of the two services, each
  project, gallery and 3D project is still in the store afterwards, under the same
  identifier, with a \<open>view_count\<close> that is not smaller; and the constraints hold
  again, so this carries over to any sequence of operations.
\<close>

theorem lookup_only_raises_view_count:
  assumes "constraints_hold s"
  shows "(\<forall>s' r. get_project_by_slug s slug = (s', Some r) \<longrightarrow>
            (\<exists>p. p \<in> set (projects s) \<and> project_slug p = slug \<and>
                r = p\<lparr>project_view_count := project_view_count p + 1\<rparr> \<and>
                s' = s\<lparr>projects := map (\<lambda>q. if q = p then r else q) (projects s)\<rparr>)) \<and>
         (\<forall>s' r. get_gallery_by_slug s slug = (s', Some r) \<longrightarrow>
            (\<exists>g. g \<in> set (galleries s) \<and> gallery_slug g = slug \<and>
                r = g\<lparr>gallery_view_count := gallery_view_count g + 1\<rparr> \<and>
                s' = s\<lparr>galleries := map (\<lambda>q. if q = g then r else q) (galleries s)\<rparr>)) \<and>
         (\<forall>s' r. get_3d_project_by_slug s slug = (s', Some r) \<longrightarrow>
            (\<exists>p. p \<in> set (three_d_projects s) \<and> three_d_slug p = slug \<and>
                r = p\<lparr>three_d_view_count := three_d_view_count p + 1\<rparr> \<and>
                s' = s\<lparr>three_d_projects :=
                         map (\<lambda>q. if q = p then r else q) (three_d_projects s)\<rparr>)) \<and>
         (\<forall>p\<in>set (projects s). \<exists>p'\<in>set (projects (store_after engine clock operation s)).
            project_id p' = project_id p \<and> project_view_count p \<le> project_view_count p') \<and>
         (\<forall>g\<in>set (galleries s). \<exists>g'\<in>set (galleries (store_after engine clock operation s)).
            gallery_id g' = gallery_id g \<and> gallery_view_count g \<le> gallery_view_count g') \<and>
         (\<forall>p\<in>set (three_d_projects s).
            \<exists>p'\<in>set (three_d_projects (store_after engine clock operation s)).
              three_d_id p' = three_d_id p \<and> three_d_view_count p \<le> three_d_view_count p') \<and>
         constraints_hold (store_after engine clock operation s)"
proof -
  from assms have keys:
    "distinct (map project_id (projects s))" "distinct (map project_slug (projects s))"
    "distinct (map gallery_id (galleries s))" "distinct (map gallery_slug (galleries s))"
    "distinct (map three_d_id (three_d_projects s))"
    "distinct (map three_d_slug (three_d_projects s))"
    by (simp_all add: constraints_hold_def)
  show ?thesis
  proof (intro conjI allI impI ballI)
    fix s' r assume "get_project_by_slug s slug = (s', Some r)"
    with keys(1,2) show "\<exists>p. p \<in> set (projects s) \<and> project_slug p = slug \<and>
                r = p\<lparr>project_view_count := project_view_count p + 1\<rparr> \<and>
                s' = s\<lparr>projects := map (\<lambda>q. if q = p then r else q) (projects s)\<rparr>"
      by (rule get_project_by_slug_SomeD)
  next
    fix s' r assume "get_gallery_by_slug s slug = (s', Some r)"
    with keys(3,4) show "\<exists>g. g \<in> set (galleries s) \<and> gallery_slug g = slug \<and>
                r = g\<lparr>gallery_view_count := gallery_view_count g + 1\<rparr> \<and>
                s' = s\<lparr>galleries := map (\<lambda>q. if q = g then r else q) (galleries s)\<rparr>"
      by (rule get_gallery_by_slug_SomeD)
  next
    fix s' r assume "get_3d_project_by_slug s slug = (s', Some r)"
    with keys(5,6) show "\<exists>p. p \<in> set (three_d_projects s) \<and> three_d_slug p = slug \<and>
                r = p\<lparr>three_d_view_count := three_d_view_count p + 1\<rparr> \<and>
                s' = s\<lparr>three_d_projects :=
                         map (\<lambda>q. if q = p then r else q) (three_d_projects s)\<rparr>"
      by (rule get_3d_project_by_slug_SomeD)
  next
    fix p assume "p \<in> set (projects s)"
    with assms show "\<exists>p'\<in>set (projects (store_after engine clock operation s)).
            project_id p' = project_id p \<and> project_view_count p \<le> project_view_count p'"
      by (rule project_view_count_kept)
  next
    fix g assume "g \<in> set (galleries s)"
    with assms show "\<exists>g'\<in>set (galleries (store_after engine clock operation s)).
            gallery_id g' = gallery_id g \<and> gallery_view_count g \<le> gallery_view_count g'"
      by (rule gallery_view_count_kept)
  next
    fix p assume "p \<in> set (three_d_projects s)"
    with assms show "\<exists>p'\<in>set (three_d_projects (store_after engine clock operation s)).
              three_d_id p' = three_d_id p \<and> three_d_view_count p \<le> three_d_view_count p'"
      by (rule three_d_view_count_kept)
  next
    from assms show "constraints_hold (store_after engine clock operation s)"
      by (rule constraints_hold_store_after)
  qed
qed

text \<open>On the seeded store, for the lookup of the first sample project.\<close>

theorem lookup_only_raises_view_count_witness:
  "constraints_hold seeded_store \<and>
   (\<exists>s' r p. get_project_by_slug seeded_store ''ecoshop-mobile-app'' = (s', Some r) \<and>
      p \<in> set (projects seeded_store) \<and>
      r = p\<lparr>project_view_count := project_view_count p + 1\<rparr> \<and>
      s' = seeded_store\<lparr>projects := map (\<lambda>q. if q = p then r else q) (projects seeded_store)\<rparr>) \<and>
   constraints_hold
     (store_after Strict ticking_clock (GetProjectBySlug ''ecoshop-mobile-app'') seeded_store)"
proof -
  let ?p = "(sample_project_ecoshop ticking_clock 1)\<lparr>project_id := Some 1\<rparr>"
  have ids: "distinct (map project_id (projects seeded_store))"
    and slugs: "distinct (map project_slug (projects seeded_store))"
    using constraints_hold_seeded by (simp_all add: constraints_hold_def)
  have p: "?p \<in> set (projects seeded_store)" by (simp add: seeded_tables)
  have slug: "project_slug ?p = ''ecoshop-mobile-app''" by (simp add: sample_project_fields)
  from get_project_by_slug_hit [OF ids slugs p]
  obtain s' r where run: "get_project_by_slug seeded_store ''ecoshop-mobile-app'' = (s', Some r)"
    unfolding slug by blast
  from lookup_only_raises_view_count [OF constraints_hold_seeded,
      of "''ecoshop-mobile-app''" Strict ticking_clock
        "GetProjectBySlug ''ecoshop-mobile-app''"] run
  show ?thesis using constraints_hold_seeded by blast
qed

text \<open>
  C10. \<open>get_projects_by_type\<close> and \<open>get_galleries_by_type\<close> with \<open>limit = 0\<close> return
  what they return with no limit: every matching row in order, not the empty list.
  The statement is truncated only for a limit that is an integer other than 0.
\<close>

theorem by_type_limit_zero_is_no_limit:
  "get_projects_by_type engine s project_type (Some 0)
     = get_projects_by_type engine s project_type None \<and>
   get_projects_by_type engine s project_type None =
     Inr (order_by project_desc
            (filter (\<lambda>p. project_status p = PUBLISHED \<and> project_project_type p = project_type)
               (projects s))) \<and>
   get_galleries_by_type engine s gallery_type (Some 0)
     = get_galleries_by_type engine s gallery_type None \<and>
   get_galleries_by_type engine s gallery_type None =
     Inr (order_by gallery_desc
            (filter (\<lambda>g. gallery_is_public g \<and> gallery_gallery_type g = gallery_type)
               (galleries s))) \<and>
   (n \<noteq> 0 \<longrightarrow>
      get_projects_by_type engine s project_type (Some n) =
        limit_rows engine n (order_by project_desc
            (filter (\<lambda>p. project_status p = PUBLISHED \<and> project_project_type p = project_type)
               (projects s))) \<and>
      get_galleries_by_type engine s gallery_type (Some n) =
        limit_rows engine n (order_by gallery_desc
            (filter (\<lambda>g. gallery_is_public g \<and> gallery_gallery_type g = gallery_type)
               (galleries s))))"
  by (simp add: get_projects_by_type_def get_galleries_by_type_def)

text \<open>
  On the seeded store: with limit 0 both \<open>ui_ux\<close> projects come back, with limit 1
  only the first of them.
\<close>

theorem by_type_limit_zero_is_no_limit_witness:
  "(1::int) \<noteq> 0 \<and>
   get_projects_by_type Strict seeded_store UI_UX (Some 0)
     = Inr (rev (projects seeded_store)) \<and>
   length (rev (projects seeded_store)) = 2 \<and>
   get_projects_by_type Strict seeded_store UI_UX (Some 1)
     = Inr (take 1 (rev (projects seeded_store))) \<and>
   get_galleries_by_type Strict seeded_store PORTFOLIO (Some 0)
     = Inr [(sample_gallery_urban ticking_clock 1)\<lparr>gallery_id := Some 1\<rparr>]"
  using by_type_limit_zero_is_no_limit [of Strict seeded_store UI_UX PORTFOLIO 1]
  by (simp add: seeded_projects_by_type seeded_galleries_by_type limit_rows_def)
    (simp add: seeded_tables)

end
